theory Spec2Isabelle
  imports Main
begin

section \<open>Python values and strings\<close>

text \<open>
  The values read out of the request dictionary and written into the notification
  payload.  \<open>dict.get\<close> gives \<open>None\<close> for a missing key, which is \<open>PyNone\<close> here.
  JSON integers, booleans, strings and null are modelled; floats, arrays and objects
  are not read by the code that is modelled.
\<close>

datatype pyval = PyNone | PyBool bool | PyInt int | PyStr string

text \<open>Python's \<open>==\<close> on these values: \<open>True == 1\<close> and \<open>False == 0\<close> hold.\<close>

fun py_eq :: "pyval \<Rightarrow> pyval \<Rightarrow> bool" where
  "py_eq (PyBool b) (PyInt n) = ((if b then 1 else 0) = n)"
| "py_eq (PyInt n) (PyBool b) = (n = (if b then 1 else 0))"
| "py_eq a b = (a = b)"

text \<open>
  A dictionary read from JSON, as the list of its items; \<open>d.get(k)\<close> is
  \<open>py_get d k\<close>, and \<open>not d\<close> holds for the empty list.
\<close>

type_synonym pydict = "(string \<times> pyval) list"

definition py_get :: "pydict \<Rightarrow> string \<Rightarrow> pyval" where
  "py_get d k = (case map_of d k of None \<Rightarrow> PyNone | Some v \<Rightarrow> v)"

text \<open>
  Characters are code points below 256; \<open>py_isspace\<close> lists the ones that
  \<open>str.strip()\<close> removes: tab to carriage return, the four separators 28 to 31,
  space, and the Latin-1 code points 133 and 160.
\<close>

definition py_isspace :: "char \<Rightarrow> bool" where
  "py_isspace c = (of_char c \<in> {9, 10, 11, 12, 13, 28, 29, 30, 31, 32, 133, 160 :: nat})"

definition py_strip :: "string \<Rightarrow> string" where
  "py_strip s = rev (dropWhile py_isspace (rev (dropWhile py_isspace s)))"

text \<open>
  \<open>str.split(sep)\<close> for a non-empty separator: the pieces between the
  non-overlapping occurrences of \<open>sep\<close>, scanned from the left.  \<open>cur\<close> is the piece
  being collected.  (Python raises on an empty separator; the code only splits on
  literals.)
\<close>

fun py_split_from :: "string \<Rightarrow> string \<Rightarrow> string \<Rightarrow> string list" where
  "py_split_from sep cur [] = [cur]"
| "py_split_from sep cur (c # cs) =
     (if sep \<noteq> [] \<and> take (length sep) (c # cs) = sep
      then cur # py_split_from sep [] (drop (length sep - 1) cs)
      else py_split_from sep (cur @ [c]) cs)"

definition py_split :: "string \<Rightarrow> string \<Rightarrow> string list" where
  "py_split sep s = py_split_from sep [] s"

text \<open>\<open>str.split(sep, 1)\<close>: split at the first occurrence only.\<close>

fun py_split1_from :: "string \<Rightarrow> string \<Rightarrow> string \<Rightarrow> string list" where
  "py_split1_from sep cur [] = [cur]"
| "py_split1_from sep cur (c # cs) =
     (if sep \<noteq> [] \<and> take (length sep) (c # cs) = sep
      then [cur, drop (length sep - 1) cs]
      else py_split1_from sep (cur @ [c]) cs)"

definition py_split1 :: "string \<Rightarrow> string \<Rightarrow> string list" where
  "py_split1 sep s = py_split1_from sep [] s"

text \<open>\<open>str.replace(old, new)\<close> for a non-empty \<open>old\<close>.\<close>

fun py_replace :: "string \<Rightarrow> string \<Rightarrow> string \<Rightarrow> string" where
  "py_replace old new [] = []"
| "py_replace old new (c # cs) =
     (if old \<noteq> [] \<and> take (length old) (c # cs) = old
      then new @ py_replace old new (drop (length old - 1) cs)
      else c # py_replace old new cs)"

definition newline :: string where
  "newline = [CHR 0x0A]"

definition fence_html :: string where
  "fence_html = [CHR 0x60, CHR 0x60, CHR 0x60] @ ''html''"

definition fence :: string where
  "fence = [CHR 0x60, CHR 0x60, CHR 0x60]"

text \<open>\<open>s.replace("```html", "").replace("```", "")\<close>\<close>

definition strip_fences :: "string \<Rightarrow> string" where
  "strip_fences s = py_replace fence [] (py_replace fence_html [] s)"

section \<open>The outside world\<close>

datatype exn = GithubException | GeminiException | UnboundLocalError | OtherException

text \<open>
  The calls of the GitHub client, each of which may raise; with them the request that
  enables Pages (\<open>EnablePages\<close>) and the reading of its JSON body (\<open>PagesJson\<close>).
\<close>

datatype gh_call =
    AuthToken | GithubClient | GetUser
  | CreateRepo string | CreateFile string | EnablePages | PagesJson
  | GetRepo string | GetContents string | Decode string | UpdateFile string
  | GetBranch string

text \<open>
  What one poll of \<open>repo.get_workflow_runs()\<close> shows: the query raises, there is no
  run (\<open>totalCount = 0\<close>), or the latest run with its status and its conclusion
  (\<open>None\<close> while the run is not finished).
\<close>

datatype poll_outcome = PollError | NoRuns | Run string "string option"

text \<open>
  What one \<open>requests.post\<close> to the evaluator gives: a response with a status code, a
  \<open>requests.exceptions.RequestException\<close>, or an exception of another class.
\<close>

datatype post_outcome = Status int | RequestException | PostOtherException

type_synonym payload = pydict

datatype log = MalformedBlock | UnexpectedFile string | NoValidFiles

datatype event =
    Sleep nat
  | Github gh_call
  | Generate
  | Poll poll_outcome
  | Post pyval payload
  | Warn log
  | Respond int

text \<open>
  The environment fixes how the outside world answers: the process-wide secret, whether
  the GitHub call made at a given count of earlier calls raises, what the generator
  returns, the answer to the Pages request, what each poll shows, the commit ids the
  host hands out, and what each notification attempt gives.
\<close>

record env =
  app_secret :: "string option"
  raises :: "nat \<Rightarrow> gh_call \<Rightarrow> bool"
  gen_text :: "exn + string"
  rev_text :: "exn + string"
  pages_status :: int
  pages_html_url :: pyval
  runs :: "nat \<Rightarrow> poll_outcome"
  head_sha :: string
  commit_sha_of :: "nat \<Rightarrow> string"
  login :: string
  repo_html_url :: string
  post :: "nat \<Rightarrow> post_outcome"

text \<open>
  The state threaded through the code: the files of the task's repository, the number
  of GitHub calls made so far, and the effects performed so far, oldest first.
\<close>

record world =
  files :: "string \<rightharpoonup> string"
  clock :: nat
  trace :: "event list"

definition emit :: "event list \<Rightarrow> world \<Rightarrow> world" where
  "emit es w = w\<lparr>trace := trace w @ es\<rparr>"

section \<open>notify_evaluator\<close>

text \<open>
  The body of \<open>for i in range(max_retries)\<close>, over the remaining values of \<open>i\<close>.
  A status of 200 returns \<open>True\<close>; any other status and a \<open>RequestException\<close> fall
  through to \<open>time.sleep(delay); delay *= 2\<close>; another exception is not caught.
\<close>

fun notify_loop ::
  "env \<Rightarrow> pyval \<Rightarrow> payload \<Rightarrow> nat list \<Rightarrow> nat \<Rightarrow> world \<Rightarrow> (exn + bool) \<times> world" where
  "notify_loop e url pl [] delay w = (Inr False, w)"
| "notify_loop e url pl (i # is) delay w =
     (let w1 = emit [Post url pl] w in
      case post e i of
        Status c \<Rightarrow>
          if c = 200 then (Inr True, w1)
          else notify_loop e url pl is (delay * 2) (emit [Sleep delay] w1)
      | RequestException \<Rightarrow> notify_loop e url pl is (delay * 2) (emit [Sleep delay] w1)
      | PostOtherException \<Rightarrow> (Inl OtherException, w1))"

definition max_retries :: nat where
  "max_retries = 5"

definition notify_evaluator :: "env \<Rightarrow> pyval \<Rightarrow> payload \<Rightarrow> world \<Rightarrow> (exn + bool) \<times> world" where
  "notify_evaluator e url pl w = notify_loop e url pl [0..<max_retries] 1 w"

text \<open>An attempt that the loop counts as failed and retries.\<close>

fun failed_attempt :: "post_outcome \<Rightarrow> bool" where
  "failed_attempt (Status c) = (c \<noteq> 200)"
| "failed_attempt RequestException = True"
| "failed_attempt PostOtherException = False"

text \<open>
  The effects of \<open>k\<close> failed attempts in a row, the first followed by a sleep of
  \<open>d\<close>: each attempt is followed by its sleep, and the delay doubles.
\<close>

fun retries :: "pyval \<Rightarrow> payload \<Rightarrow> nat \<Rightarrow> nat \<Rightarrow> event list" where
  "retries url pl 0 d = []"
| "retries url pl (Suc k) d = Post url pl # Sleep d # retries url pl k (d * 2)"

text \<open>The sleeps that a trace holds after its last notification attempt.\<close>

fun is_post :: "event \<Rightarrow> bool" where
  "is_post (Post url pl) = True"
| "is_post ev = False"

definition delays_after_last_attempt :: "event list \<Rightarrow> nat list" where
  "delays_after_last_attempt tr =
     [d. Sleep d \<leftarrow> rev (takeWhile (\<lambda>ev. \<not> is_post ev) (rev tr))]"

section \<open>wait_for_github_pages_deployment\<close>

definition timeout_seconds :: nat where
  "timeout_seconds = 300"

definition poll_interval_seconds :: nat where
  "poll_interval_seconds = 10"

text \<open>
  The \<open>while elapsed_time < timeout_seconds\<close> loop.  \<open>n\<close> counts the polls made so
  far and selects what the next poll shows.  Any exception inside the \<open>try\<close> returns
  \<open>False\<close>; a run whose status is \<open>"completed"\<close> returns at once, \<open>True\<close> for the
  conclusion \<open>"success"\<close> and \<open>False\<close> for any other; otherwise the loop sleeps for
  the poll interval and adds it to \<open>elapsed_time\<close>.
\<close>

function wait_loop :: "env \<Rightarrow> nat \<Rightarrow> nat \<Rightarrow> world \<Rightarrow> bool \<times> world" where
  "wait_loop e elapsed_time n w =
     (if elapsed_time < timeout_seconds then
        (case runs e n of
           PollError \<Rightarrow> (False, emit [Poll PollError] w)
         | NoRuns \<Rightarrow>
             wait_loop e (elapsed_time + poll_interval_seconds) (Suc n)
               (emit [Poll NoRuns, Sleep poll_interval_seconds] w)
         | Run status conclusion \<Rightarrow>
             if status = ''completed'' then
               (if conclusion = Some ''success''
                then (True, emit [Poll (Run status conclusion)] w)
                else (False, emit [Poll (Run status conclusion)] w))
             else
               wait_loop e (elapsed_time + poll_interval_seconds) (Suc n)
                 (emit [Poll (Run status conclusion), Sleep poll_interval_seconds] w))
      else (False, w))"
  by pat_completeness auto
termination
  by (relation "measure (\<lambda>(e, elapsed_time, n, w). timeout_seconds - elapsed_time)")
     (auto simp: timeout_seconds_def poll_interval_seconds_def)

declare wait_loop.simps [simp del]

definition wait_for_github_pages_deployment :: "env \<Rightarrow> world \<Rightarrow> bool \<times> world" where
  "wait_for_github_pages_deployment e w = wait_loop e 0 0 (emit [Sleep 5] w)"

text \<open>
  A poll that leaves the watcher waiting: no run yet, or a run that is not completed.
\<close>

fun pending :: "poll_outcome \<Rightarrow> bool" where
  "pending NoRuns = True"
| "pending (Run status conclusion) = (status \<noteq> ''completed'')"
| "pending PollError = False"

fun completed :: "poll_outcome \<Rightarrow> bool" where
  "completed (Run status conclusion) = (status = ''completed'')"
| "completed other = False"

fun conclusion_of :: "poll_outcome \<Rightarrow> string option" where
  "conclusion_of (Run status conclusion) = conclusion"
| "conclusion_of other = None"

text \<open>The poll observations that a trace holds, oldest first.\<close>

definition observations :: "event list \<Rightarrow> poll_outcome list" where
  "observations tr = [ob. Poll ob \<leftarrow> tr]"

text \<open>
  What the loop does over the outcomes of the polls that its budget allows: the result
  and the effects.
\<close>

fun watch :: "poll_outcome list \<Rightarrow> bool \<times> event list" where
  "watch [] = (False, [])"
| "watch (ob # obs) =
     (if pending ob
      then (fst (watch obs), Poll ob # Sleep 10 # snd (watch obs))
      else (ob = Run ''completed'' (Some ''success''), [Poll ob]))"

text \<open>The effects that a call added to the trace of the world it started from.\<close>

definition events_since :: "world \<Rightarrow> world \<Rightarrow> event list" where
  "events_since w w' = drop (length (trace w)) (trace w')"

text \<open>The time a trace spends sleeping.\<close>

definition slept :: "event list \<Rightarrow> nat" where
  "slept tr = sum_list [d. Sleep d \<leftarrow> tr]"

section \<open>Calls of the GitHub client\<close>

text \<open>
  A call is recorded in the trace and counted; the first component is \<open>True\<close> when the
  call raises.
\<close>

definition gh :: "env \<Rightarrow> gh_call \<Rightarrow> world \<Rightarrow> bool \<times> world" where
  "gh e c w = (raises e (clock w) c, w\<lparr>clock := Suc (clock w), trace := trace w @ [Github c]\<rparr>)"

text \<open>
  One statement of a \<open>try\<close> block: when it raised, the block's handler gives the result
  \<open>h\<close>; otherwise the rest of the block runs.
\<close>

definition on_raise :: "bool \<times> world \<Rightarrow> 'r \<Rightarrow> (world \<Rightarrow> 'r \<times> world) \<Rightarrow> 'r \<times> world" where
  "on_raise r h k = (if fst r then (h, snd r) else k (snd r))"

text \<open>\<open>repo.create_file(path, message, content, branch="main")\<close>\<close>

definition create_file :: "env \<Rightarrow> string \<Rightarrow> string \<Rightarrow> world \<Rightarrow> bool \<times> world" where
  "create_file e path content w =
     (case gh e (CreateFile path) w of
        (True, w1) \<Rightarrow> (True, w1)
      | (False, w1) \<Rightarrow> (False, w1\<lparr>files := (files w1)(path \<mapsto> content)\<rparr>))"

text \<open>
  \<open>repo.get_contents(path)\<close>: raises when the host says so and when the repository has
  no such file; otherwise the file, with its content.  \<open>None\<close> stands for the raise.
\<close>

definition get_contents :: "env \<Rightarrow> string \<Rightarrow> world \<Rightarrow> string option \<times> world" where
  "get_contents e path w =
     (case gh e (GetContents path) w of
        (True, w1) \<Rightarrow> (None, w1)
      | (False, w1) \<Rightarrow> (files w1 path, w1))"

text \<open>
  \<open>repo.update_file(path, message, content, sha)\<close> with the version token just read:
  raises when the host says so; otherwise the file has the new content and the result
  carries the id of the new commit.  \<open>None\<close> stands for the raise.
\<close>

definition update_file :: "env \<Rightarrow> string \<Rightarrow> string \<Rightarrow> world \<Rightarrow> string option \<times> world" where
  "update_file e path content w =
     (case gh e (UpdateFile path) w of
        (True, w1) \<Rightarrow> (None, w1)
      | (False, w1) \<Rightarrow> (Some (commit_sha_of e (clock w)), w1\<lparr>files := (files w1)(path \<mapsto> content)\<rparr>))"

section \<open>Formatting\<close>

fun digits :: "nat \<Rightarrow> string" where
  "digits n = (if n < 10 then [''0123456789'' ! n]
               else digits (n div 10) @ [''0123456789'' ! (n mod 10)])"

declare digits.simps [simp del]

text \<open>How an f-string renders a value.\<close>

fun py_str :: "pyval \<Rightarrow> string" where
  "py_str PyNone = ''None''"
| "py_str (PyBool b) = (if b then ''True'' else ''False'')"
| "py_str (PyInt n) = (if n < 0 then ''-'' @ digits (nat (- n)) else digits (nat n))"
| "py_str (PyStr s) = s"

section \<open>Round 1: build\<close>

text \<open>
  \<open>generate_app_code\<close>: the construction of the prompt and the call of the generator are
  one effect, whose outcome the environment gives: an exception, or the text of the
  response, which is stripped and freed of code fences.
\<close>

definition generate_app_code :: "env \<Rightarrow> world \<Rightarrow> (exn + string) \<times> world" where
  "generate_app_code e w =
     (case gen_text e of
        Inl ex \<Rightarrow> (Inl ex, emit [Generate] w)
      | Inr text \<Rightarrow> (Inr (strip_fences (py_strip text)), emit [Generate] w))"

record github_details =
  gd_repo_url :: string
  gd_pages_url :: pyval
  gd_commit_sha :: string

text \<open>The first line of the licence literal; its further lines are not reproduced.\<close>

definition license_content :: string where
  "license_content = ''MIT License''"

definition readme_content :: "string \<Rightarrow> string" where
  "readme_content repo_name =
     ''# '' @ repo_name @ newline @ newline @
     ''This project was auto-generated for the TDS Project.''"

text \<open>
  \<open>create_and_deploy_repo\<close>: the whole body is one \<open>try\<close> whose handler returns \<open>None\<close>.
\<close>

definition create_and_deploy_repo ::
  "env \<Rightarrow> pyval \<Rightarrow> string \<Rightarrow> world \<Rightarrow> github_details option \<times> world" where
  "create_and_deploy_repo e task_id generated_html w =
     on_raise (gh e AuthToken w) None (\<lambda>w.
     on_raise (gh e GithubClient w) None (\<lambda>w.
     on_raise (gh e GetUser w) None (\<lambda>w.
     let repo_name = ''llm-app-'' @ py_str task_id in
     on_raise (gh e (CreateRepo repo_name) w) None (\<lambda>w.
     on_raise (create_file e ''LICENSE'' license_content w) None (\<lambda>w.
     on_raise (create_file e ''README.md'' (readme_content repo_name) w) None (\<lambda>w.
     on_raise (create_file e ''index.html'' generated_html w) None (\<lambda>w.
     on_raise (gh e EnablePages w) None (\<lambda>w.
     if pages_status e \<noteq> 201 then (None, w)
     else
       on_raise (gh e PagesJson w) None (\<lambda>w.
       case wait_for_github_pages_deployment e w of
         (deployment_successful, w) \<Rightarrow>
           if \<not> deployment_successful then (None, w)
           else
             on_raise (gh e (GetBranch ''main'') w) None (\<lambda>w.
             (Some \<lparr>gd_repo_url = repo_html_url e, gd_pages_url = pages_html_url e,
                     gd_commit_sha = head_sha e\<rparr>, w)))))))))))"

text \<open>
  \<open>process_build_request\<close>.  The result is \<open>Inl\<close> when an exception leaves the function
  and \<open>Inr ()\<close> when it returns.
\<close>

definition process_build_request :: "env \<Rightarrow> pydict \<Rightarrow> world \<Rightarrow> (exn + unit) \<times> world" where
  "process_build_request e data w =
     (case generate_app_code e w of
        (Inl ex, w1) \<Rightarrow> (Inl ex, w1)
      | (Inr generated_code, w1) \<Rightarrow>
          if generated_code = [] then (Inr (), w1)
          else
            case create_and_deploy_repo e (py_get data ''task'') generated_code w1 of
              (None, w2) \<Rightarrow> (Inr (), w2)
            | (Some github_details, w2) \<Rightarrow>
                let notification_payload =
                  [(''email'', py_get data ''email''),
                   (''task'', py_get data ''task''),
                   (''round'', PyInt 1),
                   (''nonce'', py_get data ''nonce''),
                   (''repo_url'', PyStr (gd_repo_url github_details)),
                   (''commit_sha'', PyStr (gd_commit_sha github_details)),
                   (''pages_url'', gd_pages_url github_details)]
                in case notify_evaluator e (py_get data ''evaluation_url'') notification_payload w2 of
                     (Inl ex, w3) \<Rightarrow> (Inl ex, w3)
                   | (Inr delivered, w3) \<Rightarrow> (Inr (), w3))"

section \<open>Round 2: revise\<close>

record repo_details =
  repo_name_of :: string
  existing_code :: "string \<rightharpoonup> string"

text \<open>
  The handler of the \<open>try\<close> in \<open>get_existing_repo_details\<close> prints a message that
  names the local variable \<open>repo_name\<close> and then returns \<open>None\<close>.  While the variable
  is not yet bound, reading it raises \<open>UnboundLocalError\<close> inside the handler, and that
  exception leaves the function.
\<close>

fun lookup_handler :: "string option \<Rightarrow> exn + repo_details option" where
  "lookup_handler None = Inl UnboundLocalError"
| "lookup_handler (Some repo_name) = Inr None"

definition get_existing_repo_details ::
  "env \<Rightarrow> pyval \<Rightarrow> world \<Rightarrow> (exn + repo_details option) \<times> world" where
  "get_existing_repo_details e task_id w =
     on_raise (gh e AuthToken w) (lookup_handler None) (\<lambda>w.
     on_raise (gh e GithubClient w) (lookup_handler None) (\<lambda>w.
     on_raise (gh e GetUser w) (lookup_handler None) (\<lambda>w.
     let repo_name = ''llm-app-'' @ py_str task_id in
     on_raise (gh e (GetRepo repo_name) w) (lookup_handler (Some repo_name)) (\<lambda>w.
     case get_contents e ''index.html'' w of
       (None, w) \<Rightarrow> (lookup_handler (Some repo_name), w)
     | (Some index_file, w) \<Rightarrow>
     case get_contents e ''README.md'' w of
       (None, w) \<Rightarrow> (lookup_handler (Some repo_name), w)
     | (Some readme_file, w) \<Rightarrow>
     on_raise (gh e (Decode ''index.html'') w) (lookup_handler (Some repo_name)) (\<lambda>w.
     on_raise (gh e (Decode ''README.md'') w) (lookup_handler (Some repo_name)) (\<lambda>w.
     (Inr (Some \<lparr>repo_name_of = repo_name,
                  existing_code = [''index.html'' \<mapsto> index_file, ''README.md'' \<mapsto> readme_file]\<rparr>),
      w)))))))"

text \<open>
  \<open>generate_updated_code\<close>: as for round 1, one effect whose outcome the environment
  gives; the text of the response is returned as it is.
\<close>

definition generate_updated_code :: "env \<Rightarrow> world \<Rightarrow> (exn + string) \<times> world" where
  "generate_updated_code e w = (rev_text e, emit [Generate] w)"

definition file_marker :: string where
  "file_marker = ''--- FILE: ''"

text \<open>\<open>parts[0].split("---")[0].strip()\<close> and the content, for a block with a line break.\<close>

definition block_filename :: "string \<Rightarrow> string" where
  "block_filename file_raw = py_strip (hd (py_split ''---'' (py_split1 newline file_raw ! 0)))"

definition block_content :: "string \<Rightarrow> string" where
  "block_content file_raw = strip_fences (py_strip (py_split1 newline file_raw ! 1))"

text \<open>
  The \<open>for file_raw in files_raw\<close> loop of \<open>update_repo_files\<close>, with \<open>new_commit_sha\<close>
  as it stands.  \<open>None\<close> stands for an exception, which ends the loop.
\<close>

fun update_loop :: "env \<Rightarrow> string list \<Rightarrow> string \<Rightarrow> world \<Rightarrow> string option \<times> world" where
  "update_loop e [] new_commit_sha w = (Some new_commit_sha, w)"
| "update_loop e (file_raw # files_raw) new_commit_sha w =
     (if py_strip file_raw = [] then update_loop e files_raw new_commit_sha w
      else if length (py_split1 newline file_raw) < 2
      then update_loop e files_raw new_commit_sha (emit [Warn MalformedBlock] w)
      else
        let filename = block_filename file_raw; content = block_content file_raw in
        if filename \<in> set [''index.html'', ''README.md''] then
          case get_contents e filename w of
            (None, w1) \<Rightarrow> (None, w1)
          | (Some original_file, w1) \<Rightarrow>
              case update_file e filename content w1 of
                (None, w2) \<Rightarrow> (None, w2)
              | (Some sha, w2) \<Rightarrow> update_loop e files_raw sha w2
        else update_loop e files_raw new_commit_sha (emit [Warn (UnexpectedFile filename)] w))"

definition update_repo_files :: "env \<Rightarrow> string \<Rightarrow> world \<Rightarrow> string option \<times> world" where
  "update_repo_files e llm_response w =
     (case update_loop e (py_split file_marker llm_response) [] w of
        (None, w1) \<Rightarrow> (None, w1)
      | (Some new_commit_sha, w1) \<Rightarrow>
          if new_commit_sha = [] then (None, emit [Warn NoValidFiles] w1)
          else
            case wait_for_github_pages_deployment e w1 of
              (deployment_successful, w2) \<Rightarrow>
                if \<not> deployment_successful then (None, w2)
                else (Some new_commit_sha, w2))"

definition process_revise_request :: "env \<Rightarrow> pydict \<Rightarrow> world \<Rightarrow> (exn + unit) \<times> world" where
  "process_revise_request e data w =
     (let task_id = py_get data ''task'' in
      case get_existing_repo_details e task_id w of
        (Inl ex, w1) \<Rightarrow> (Inl ex, w1)
      | (Inr None, w1) \<Rightarrow> (Inr (), w1)
      | (Inr (Some repo_details), w1) \<Rightarrow>
          case generate_updated_code e w1 of
            (Inl ex, w2) \<Rightarrow> (Inl ex, w2)
          | (Inr llm_response, w2) \<Rightarrow>
              if llm_response = [] then (Inr (), w2)
              else
                case update_repo_files e llm_response w2 of
                  (None, w3) \<Rightarrow> (Inr (), w3)
                | (Some commit_sha, w3) \<Rightarrow>
                    if commit_sha = [] then (Inr (), w3)
                    else
                    let notification_payload =
                      [(''email'', py_get data ''email''),
                       (''task'', task_id),
                       (''round'', PyInt 2),
                       (''nonce'', py_get data ''nonce''),
                       (''repo_url'', PyStr (repo_html_url e)),
                       (''commit_sha'', PyStr commit_sha),
                       (''pages_url'',
                          PyStr (''https://'' @ login e @ ''.github.io/'' @
                                 repo_name_of repo_details @ ''/''))]
                    in case notify_evaluator e (py_get data ''evaluation_url'') notification_payload w3 of
                         (Inl ex, w4) \<Rightarrow> (Inl ex, w4)
                       | (Inr delivered, w4) \<Rightarrow> (Inr (), w4))"

section \<open>The HTTP handler\<close>

type_synonym response = "(string \<times> string) \<times> int"

definition forbidden :: response where
  "forbidden = ((''error'', ''Invalid or missing secret''), 403)"

definition accepted :: response where
  "accepted = ((''status'', ''Request processed successfully.''), 200)"

text \<open>\<open>MY_APP_SECRET\<close> as a Python value: \<open>None\<close> when the variable is not set.\<close>

definition my_app_secret :: "env \<Rightarrow> pyval" where
  "my_app_secret e = (case app_secret e of None \<Rightarrow> PyNone | Some s \<Rightarrow> PyStr s)"

text \<open>
  \<open>handle_project_request\<close>.  \<open>data\<close> is the parsed body: \<open>None\<close> for a JSON \<open>null\<close>,
  otherwise the dictionary.  \<open>not data\<close> holds for \<open>None\<close> and for the empty
  dictionary.  The workflow is called in the handler; the response is returned after
  the call, and an exception of the workflow leaves the handler.
\<close>

definition handle_project_request ::
  "env \<Rightarrow> pydict option \<Rightarrow> world \<Rightarrow> (exn + response) \<times> world" where
  "handle_project_request e request_json w =
     (case request_json of
        None \<Rightarrow> (Inr forbidden, emit [Respond 403] w)
      | Some data \<Rightarrow>
          if data = [] \<or> \<not> py_eq (py_get data ''secret'') (my_app_secret e)
          then (Inr forbidden, emit [Respond 403] w)
          else if py_eq (py_get data ''round'') (PyInt 2) then
            (case process_revise_request e data w of
               (Inl ex, w1) \<Rightarrow> (Inl ex, w1)
             | (Inr u, w1) \<Rightarrow> (Inr accepted, emit [Respond 200] w1))
          else if py_eq (py_get data ''round'') (PyInt 1) then
            (case process_build_request e data w of
               (Inl ex, w1) \<Rightarrow> (Inl ex, w1)
             | (Inr u, w1) \<Rightarrow> (Inr accepted, emit [Respond 200] w1))
          else (Inr accepted, emit [Respond 200] w))"

section \<open>Notions used by the properties\<close>

text \<open>The notification attempts that the trace of a world holds.\<close>

definition posts :: "world \<Rightarrow> event list" where
  "posts w = filter is_post (trace w)"

text \<open>
  A block of the response that \<open>update_repo_files\<close> takes for a file: not blank, with
  a line break, and named \<open>index.html\<close> or \<open>README.md\<close>.
\<close>

definition recognized :: "string \<Rightarrow> bool" where
  "recognized file_raw \<longleftrightarrow>
     py_strip file_raw \<noteq> [] \<and> CHR 0x0A \<in> set file_raw \<and>
     block_filename file_raw \<in> set [''index.html'', ''README.md'']"

fun is_warn :: "event \<Rightarrow> bool" where
  "is_warn (Warn l) = True"
| "is_warn ev = False"

text \<open>
  Whether the watcher succeeds in an environment: its result depends on what the polls
  show, not on the world it starts from.
\<close>

definition deployment_succeeds :: "env \<Rightarrow> bool" where
  "deployment_succeeds e = fst (watch (map (runs e) [0..<30]))"

text \<open>
  The situation of a partial update: \<open>seg1\<close> and \<open>seg2\<close> are recognized blocks, the
  read and the update of the file of \<open>seg1\<close> pass in the world \<open>w\<close>, and then the read
  or the update of the file of \<open>seg2\<close> raises.
\<close>

definition first_committed_second_fails :: "env \<Rightarrow> world \<Rightarrow> string \<Rightarrow> string \<Rightarrow> bool" where
  "first_committed_second_fails e w seg1 seg2 \<longleftrightarrow>
     recognized seg1 \<and> recognized seg2 \<and>
     \<not> raises e (clock w) (GetContents (block_filename seg1)) \<and>
     files w (block_filename seg1) \<noteq> None \<and>
     \<not> raises e (clock w + 1) (UpdateFile (block_filename seg1)) \<and>
     (raises e (clock w + 2) (GetContents (block_filename seg2)) \<or>
      ((files w)(block_filename seg1 \<mapsto> block_content seg1)) (block_filename seg2) = None \<or>
      raises e (clock w + 3) (UpdateFile (block_filename seg2)))"

text \<open>The effects that a trace holds before its first response.\<close>

fun is_respond :: "event \<Rightarrow> bool" where
  "is_respond (Respond status) = True"
| "is_respond ev = False"

definition events_before_response :: "event list \<Rightarrow> event list" where
  "events_before_response tr = takeWhile (\<lambda>ev. \<not> is_respond ev) tr"

text \<open>
  What the loop of \<open>update_repo_files\<close> adds to the trace for one block when no call
  raises: nothing for a blank block, one warning for a block without a line break or
  with another file name, and the read and the update of the file for a recognized
  block.
\<close>

definition block_warning :: "string \<Rightarrow> event list" where
  "block_warning file_raw =
     (if py_strip file_raw = [] then []
      else if CHR 0x0A \<notin> set file_raw then [Warn MalformedBlock]
      else if block_filename file_raw \<notin> set [''index.html'', ''README.md'']
      then [Warn (UnexpectedFile (block_filename file_raw))]
      else [])"

definition block_events :: "string \<Rightarrow> event list" where
  "block_events file_raw =
     (if recognized file_raw
      then [Github (GetContents (block_filename file_raw)),
            Github (UpdateFile (block_filename file_raw))]
      else block_warning file_raw)"

text \<open>
  The files of the repository after the recognized blocks have been written over them
  in the order of the response, and the commit id that the loop holds at its end when
  it starts with \<open>sha\<close> at the call count \<open>k\<close>: the id of the update for the last
  recognized block.
\<close>

definition updated_files :: "string list \<Rightarrow> (string \<rightharpoonup> string) \<Rightarrow> (string \<rightharpoonup> string)" where
  "updated_files segs fs =
     fold (\<lambda>s fs. fs(block_filename s \<mapsto> block_content s)) (filter recognized segs) fs"

fun loop_sha :: "env \<Rightarrow> string list \<Rightarrow> string \<Rightarrow> nat \<Rightarrow> string" where
  "loop_sha e [] sha k = sha"
| "loop_sha e (s # segs) sha k =
     (if recognized s then loop_sha e segs (commit_sha_of e (Suc k)) (Suc (Suc k))
      else loop_sha e segs sha k)"

section \<open>Concrete environments\<close>

definition env0 :: env where
  "env0 = \<lparr>app_secret = Some ''s3cret'',
           raises = (\<lambda>n c. False),
           gen_text = Inr ''<html><body>todo</body></html>'',
           rev_text = Inr [],
           pages_status = 201,
           pages_html_url = PyStr ''https://octocat.github.io/llm-app-t1/'',
           runs = (\<lambda>n. Run ''completed'' (Some ''success'')),
           head_sha = ''a1b2c3'',
           commit_sha_of = (\<lambda>n. ''d4e5f6''),
           login = ''octocat'',
           repo_html_url = ''https://github.com/octocat/llm-app-t1'',
           post = (\<lambda>i. Status 200)\<rparr>"

definition w0 :: world where
  "w0 = \<lparr>files = Map.empty, clock = 0, trace = []\<rparr>"

definition url0 :: pyval where
  "url0 = PyStr ''https://evaluator.example/notify''"

definition env_always_500 :: env where
  "env_always_500 = env0\<lparr>post := (\<lambda>i. Status 500)\<rparr>"

definition env_third_200 :: env where
  "env_third_200 =
     env0\<lparr>post := (\<lambda>i. if i = 0 then RequestException else if i = 1 then Status 503 else Status 200)\<rparr>"

definition env_polls :: env where
  "env_polls =
     env0\<lparr>runs := (\<lambda>n. if n = 0 then NoRuns
                        else if n = 1 then Run ''in_progress'' None
                        else Run ''completed'' (Some ''failure''))\<rparr>"

definition env_never :: env where
  "env_never = env0\<lparr>runs := (\<lambda>n. if even n then NoRuns else Run ''queued'' None)\<rparr>"

definition build_request :: pydict where
  "build_request =
     [(''secret'', PyStr ''s3cret''), (''round'', PyInt 1), (''task'', PyStr ''t1''),
      (''email'', PyStr ''dev@example.org''), (''nonce'', PyStr ''n-1''),
      (''brief'', PyStr ''todo app''), (''evaluation_url'', url0)]"

definition revise_request :: pydict where
  "revise_request =
     [(''secret'', PyStr ''s3cret''), (''round'', PyInt 2), (''task'', PyStr ''t1''),
      (''email'', PyStr ''dev@example.org''), (''nonce'', PyStr ''n-2''),
      (''brief'', PyStr ''add a footer''), (''evaluation_url'', url0)]"

definition w_repo :: world where
  "w_repo = \<lparr>files = [''index.html'' \<mapsto> ''<html>v1</html>'', ''README.md'' \<mapsto> ''# v1''],
            clock = 0, trace = []\<rparr>"

definition env_no_token :: env where
  "env_no_token = env0\<lparr>raises := (\<lambda>n c. c = AuthToken)\<rparr>"

definition env_no_repo :: env where
  "env_no_repo = env0\<lparr>raises := (\<lambda>n c. c = GetRepo ''llm-app-t1'')\<rparr>"

definition resp_bad :: string where
  "resp_bad =
     ''Here you go'' @ newline @ ''--- FILE: style.css ---'' @ newline @ ''body {}'' @ newline @
     ''--- FILE: index.html ---''"

definition env_bad_response :: env where
  "env_bad_response = env0\<lparr>rev_text := Inr resp_bad\<rparr>"

definition resp_two :: string where
  "resp_two =
     ''--- FILE: index.html ---'' @ newline @ ''<html>v2</html>'' @ newline @ newline @
     ''--- FILE: README.md ---'' @ newline @ ''# v2'' @ newline"

definition seg_index :: string where
  "seg_index = ''index.html ---'' @ newline @ ''<html>v2</html>'' @ newline @ newline"

definition seg_readme :: string where
  "seg_readme = ''README.md ---'' @ newline @ ''# v2'' @ newline"

definition env_second_fails :: env where
  "env_second_fails =
     env0\<lparr>rev_text := Inr resp_two, raises := (\<lambda>n c. c = UpdateFile ''README.md'')\<rparr>"

definition env_no_secret :: env where
  "env_no_secret = env0\<lparr>app_secret := None\<rparr>"

definition build_request_no_secret :: pydict where
  "build_request_no_secret =
     [(''round'', PyInt 1), (''task'', PyStr ''t1''), (''email'', PyStr ''dev@example.org''),
      (''nonce'', PyStr ''n-1''), (''brief'', PyStr ''todo app''), (''evaluation_url'', url0)]"

definition build_payload :: payload where
  "build_payload =
     [(''email'', PyStr ''dev@example.org''), (''task'', PyStr ''t1''), (''round'', PyInt 1),
      (''nonce'', PyStr ''n-1''), (''repo_url'', PyStr ''https://github.com/octocat/llm-app-t1''),
      (''commit_sha'', PyStr ''a1b2c3''),
      (''pages_url'', PyStr ''https://octocat.github.io/llm-app-t1/'')]"

definition build_events :: "event list" where
  "build_events =
     [Generate, Github AuthToken, Github GithubClient, Github GetUser,
      Github (CreateRepo ''llm-app-t1''), Github (CreateFile ''LICENSE''),
      Github (CreateFile ''README.md''), Github (CreateFile ''index.html''),
      Github EnablePages, Github PagesJson, Sleep 5,
      Poll (Run ''completed'' (Some ''success'')),
      Github (GetBranch ''main''), Post url0 build_payload]"

definition resp_mixed :: string where
  "resp_mixed =
     ''--- FILE: style.css ---'' @ newline @ ''body {}'' @ newline @
     ''--- FILE: index.html ---'' @ newline @ ''<html>v2</html>'' @ newline @
     ''--- FILE: README.md ---'' @ newline @ ''# v2'' @ newline @
     ''--- FILE: notes''"

definition env_mixed_response :: env where
  "env_mixed_response = env0\<lparr>rev_text := Inr resp_mixed\<rparr>"

definition revise_payload :: payload where
  "revise_payload =
     [(''email'', PyStr ''dev@example.org''), (''task'', PyStr ''t1''), (''round'', PyInt 2),
      (''nonce'', PyStr ''n-2''), (''repo_url'', PyStr ''https://github.com/octocat/llm-app-t1''),
      (''commit_sha'', PyStr ''d4e5f6''),
      (''pages_url'', PyStr ''https://octocat.github.io/llm-app-t1/'')]"

section \<open>Properties of notify_evaluator\<close>

lemma emit_emit [simp]: "emit b (emit a w) = emit (a @ b) w"
  by (simp add: emit_def)

lemma emit_Nil [simp]: "emit [] w = w"
  by (simp add: emit_def)

lemma notify_loop_failed_step:
  "failed_attempt (post e i) \<Longrightarrow>
   notify_loop e url pl (i # is) d w =
   notify_loop e url pl is (d * 2) (emit [Post url pl, Sleep d] w)"
  by (cases "post e i") (simp_all add: Let_def)

lemma notify_loop_success_step:
  "post e i = Status 200 \<Longrightarrow>
   notify_loop e url pl (i # is) d w = (Inr True, emit [Post url pl] w)"
  by (simp add: Let_def)

lemma notify_loop_prefix:
  "\<forall>i \<in> set pre. failed_attempt (post e i) \<Longrightarrow>
   notify_loop e url pl (pre @ rest) d w =
   notify_loop e url pl rest (d * 2 ^ length pre) (emit (retries url pl (length pre) d) w)"
proof (induction pre arbitrary: d w)
  case Nil
  then show ?case by simp
next
  case (Cons i pre)
  then show ?case
    by (simp add: notify_loop_failed_step del: notify_loop.simps) (simp add: mult.assoc)
qed

lemma notify_loop_true_iff:
  "fst (notify_loop e url pl is d w) = Inr True \<longleftrightarrow>
   (\<exists>k < length is. post e (is ! k) = Status 200 \<and> (\<forall>j < k. failed_attempt (post e (is ! j))))"
proof (induction "is" arbitrary: d w)
  case Nil
  then show ?case by simp
next
  case (Cons i "is")
  let ?R = "\<exists>k < length (i # is). post e ((i # is) ! k) = Status 200 \<and>
              (\<forall>j < k. failed_attempt (post e ((i # is) ! j)))"
  let ?L = "\<exists>k < length is. post e (is ! k) = Status 200 \<and>
              (\<forall>j < k. failed_attempt (post e (is ! j)))"
  show ?case
  proof (cases "post e i = Status 200")
    case True
    then have "fst (notify_loop e url pl (i # is) d w) = Inr True"
      by (simp add: notify_loop_success_step del: notify_loop.simps)
    moreover from True have ?R
      by (intro exI [of _ 0]) simp
    ultimately show ?thesis by blast
  next
    case False
    show ?thesis
    proof (cases "failed_attempt (post e i)")
      case True
      have "fst (notify_loop e url pl (i # is) d w) = Inr True \<longleftrightarrow> ?L"
        using Cons.IH True by (simp add: notify_loop_failed_step del: notify_loop.simps)
      also have "?L \<longleftrightarrow> ?R"
      proof
        assume ?L
        then obtain k where k: "k < length is" "post e (is ! k) = Status 200"
          "\<forall>j < k. failed_attempt (post e (is ! j))" by blast
        show ?R
        proof (intro exI [of _ "Suc k"] conjI allI impI)
          show "Suc k < length (i # is)" using k by simp
          show "post e ((i # is) ! Suc k) = Status 200" using k by simp
          fix j assume "j < Suc k"
          then show "failed_attempt (post e ((i # is) ! j))"
            using k True by (cases j) auto
        qed
      next
        assume ?R
        then obtain k where k: "k < length (i # is)" "post e ((i # is) ! k) = Status 200"
          "\<forall>j < k. failed_attempt (post e ((i # is) ! j))" by blast
        from k False obtain k' where k': "k = Suc k'" by (cases k) auto
        show ?L
        proof (intro exI [of _ k'] conjI allI impI)
          show "k' < length is" using k k' by simp
          show "post e (is ! k') = Status 200" using k k' by simp
          fix j assume "j < k'"
          then have "Suc j < k" using k' by simp
          then have "failed_attempt (post e ((i # is) ! Suc j))" using k by blast
          then show "failed_attempt (post e (is ! j))" by simp
        qed
      qed
      finally show ?thesis .
    next
      case nf: False
      with False have other: "post e i = PostOtherException"
        by (cases "post e i") auto
      then have "fst (notify_loop e url pl (i # is) d w) \<noteq> Inr True"
        by (simp add: Let_def)
      moreover have "\<not> ?R"
      proof
        assume ?R
        then obtain k where k: "k < length (i # is)" "post e ((i # is) ! k) = Status 200"
          "\<forall>j < k. failed_attempt (post e ((i # is) ! j))" by blast
        show False
        proof (cases k)
          case 0
          with k other show False by simp
        next
          case (Suc k')
          with k have "failed_attempt (post e ((i # is) ! 0))" by blast
          with nf show False by simp
        qed
      qed
      ultimately show ?thesis by blast
    qed
  qed
qed

lemma upt_split_at: "k < n \<Longrightarrow> [0..<n] = [0..<k] @ k # [Suc k..<n]"
  using upt_add_eq_append [of 0 k "n - k"] upt_conv_Cons [of k n] by simp

lemma notify_evaluator_true_iff:
  "fst (notify_evaluator e url pl w) = Inr True \<longleftrightarrow>
     (\<exists>k < 5. post e k = Status 200 \<and> (\<forall>j < k. failed_attempt (post e j)))"
proof -
  let ?is = "[0..<5::nat]"
  have nth: "?is ! k = k" if "k < 5" for k :: nat using that by simp
  have "fst (notify_evaluator e url pl w) = Inr True \<longleftrightarrow>
     (\<exists>k < length ?is. post e (?is ! k) = Status 200 \<and>
        (\<forall>j < k. failed_attempt (post e (?is ! j))))"
    unfolding notify_evaluator_def max_retries_def by (rule notify_loop_true_iff)
  also have "\<dots> \<longleftrightarrow> (\<exists>k < 5. post e k = Status 200 \<and> (\<forall>j < k. failed_attempt (post e j)))"
  proof (intro iffI; elim exE conjE)
    fix k assume k: "k < length ?is" "post e (?is ! k) = Status 200"
      "\<forall>j < k. failed_attempt (post e (?is ! j))"
    then have k5: "k < 5" by simp
    have "\<forall>j < k. failed_attempt (post e j)"
    proof (intro allI impI)
      fix j assume "j < k"
      with k5 have "j < 5" by simp
      with k(3) \<open>j < k\<close> nth [of j] show "failed_attempt (post e j)" by auto
    qed
    with k5 k(2) nth [of k]
    show "\<exists>k < 5. post e k = Status 200 \<and> (\<forall>j < k. failed_attempt (post e j))"
      by auto
  next
    fix k :: nat
    assume k: "k < 5" "post e k = Status 200" "\<forall>j < k. failed_attempt (post e j)"
    have "\<forall>j < k. failed_attempt (post e (?is ! j))"
    proof (intro allI impI)
      fix j assume "j < k"
      with k(1) have "j < 5" by simp
      with k(3) \<open>j < k\<close> nth [of j] show "failed_attempt (post e (?is ! j))" by auto
    qed
    with k nth [of k]
    show "\<exists>k < length ?is. post e (?is ! k) = Status 200 \<and>
            (\<forall>j < k. failed_attempt (post e (?is ! j)))"
      by (intro exI [of _ k]) simp
  qed
  finally show ?thesis .
qed

lemma notify_evaluator_success_at:
  assumes k: "k < 5"
    and ok: "post e k = Status 200 \<and> (\<forall>j < k. failed_attempt (post e j))"
  shows "notify_evaluator e url pl w = (Inr True, emit (retries url pl k 1 @ [Post url pl]) w)"
proof -
  have split: "[0..<5] = [0..<k] @ k # [Suc k..<5]"
    using k by (rule upt_split_at)
  have "\<forall>i \<in> set [0..<k]. failed_attempt (post e i)" using ok by simp
  from notify_loop_prefix [OF this, of url pl "k # [Suc k..<5]" 1 w] ok
  show ?thesis
    unfolding notify_evaluator_def max_retries_def split
    by (simp add: notify_loop_success_step del: notify_loop.simps)
qed

text \<open>
  C1, as the code has it: when all five attempts fail, \<open>notify_evaluator\<close> makes exactly
  five attempts, sleeps after every one of them (1, 2, 4 and 8 between the attempts and
  16 after the fifth), and returns \<open>False\<close>.
\<close>

theorem notify_evaluator_all_failed:
  assumes "\<forall>i < 5. failed_attempt (post e i)"
  shows "notify_evaluator e url pl w =
    (Inr False, emit [Post url pl, Sleep 1, Post url pl, Sleep 2, Post url pl, Sleep 4,
                      Post url pl, Sleep 8, Post url pl, Sleep 16] w)"
proof -
  have "\<forall>i \<in> set [0..<5]. failed_attempt (post e i)" using assms by simp
  from notify_loop_prefix [OF this, of url pl "[]" 1 w]
  show ?thesis
    by (simp add: notify_evaluator_def max_retries_def eval_nat_numeral)
qed

theorem notify_evaluator_all_failed_witness:
  "failed_attempt (post env_always_500 0) \<and> failed_attempt (post env_always_500 1) \<and>
   failed_attempt (post env_always_500 2) \<and> failed_attempt (post env_always_500 3) \<and>
   failed_attempt (post env_always_500 4) \<and>
   notify_evaluator env_always_500 url0 [] w0 =
    (Inr False, emit [Post url0 [], Sleep 1, Post url0 [], Sleep 2, Post url0 [], Sleep 4,
                      Post url0 [], Sleep 8, Post url0 [], Sleep 16] w0)"
  using notify_evaluator_all_failed [of env_always_500 url0 "[]" w0]
  by (simp add: env_always_500_def)

text \<open>
  C1, as the spec states it, fails: against a target that answers 500 to every attempt
  the fifth and final attempt is followed by a sleep of 16.
\<close>

theorem notify_evaluator_final_delay_counterexample:
  "trace (snd (notify_evaluator env_always_500 url0 [] w0)) =
     [Post url0 [], Sleep 1, Post url0 [], Sleep 2, Post url0 [], Sleep 4,
      Post url0 [], Sleep 8, Post url0 [], Sleep 16] \<and>
   delays_after_last_attempt (trace (snd (notify_evaluator env_always_500 url0 [] w0))) = [16]"
  by (simp add: notify_evaluator_def max_retries_def upt_rec env_always_500_def Let_def
      emit_def w0_def delays_after_last_attempt_def)

text \<open>
  C7: \<open>notify_evaluator\<close> returns \<open>True\<close> exactly when some attempt \<open>k\<close> of the five is
  answered with status 200 and every attempt before it failed (another status, or a
  \<open>RequestException\<close>); it then stops after attempt \<open>k\<close>, having made \<open>k + 1\<close> attempts.
  With the 200 on the third attempt there are exactly three attempts, with sleeps of 1
  and 2 between them.
\<close>

theorem notify_evaluator_first_success:
  "(fst (notify_evaluator e url pl w) = Inr True \<longleftrightarrow>
      (\<exists>k < 5. post e k = Status 200 \<and> (\<forall>j < k. failed_attempt (post e j))))
   \<and> (\<forall>k < 5. post e k = Status 200 \<and> (\<forall>j < k. failed_attempt (post e j)) \<longrightarrow>
        notify_evaluator e url pl w = (Inr True, emit (retries url pl k 1 @ [Post url pl]) w))
   \<and> (failed_attempt (post e 0) \<and> failed_attempt (post e 1) \<and> post e 2 = Status 200 \<longrightarrow>
        notify_evaluator e url pl w =
          (Inr True, emit [Post url pl, Sleep 1, Post url pl, Sleep 2, Post url pl] w))"
proof (intro conjI allI impI)
  show "fst (notify_evaluator e url pl w) = Inr True \<longleftrightarrow>
      (\<exists>k < 5. post e k = Status 200 \<and> (\<forall>j < k. failed_attempt (post e j)))"
    by (rule notify_evaluator_true_iff)
next
  fix k :: nat
  assume "k < 5" and "post e k = Status 200 \<and> (\<forall>j < k. failed_attempt (post e j))"
  then show "notify_evaluator e url pl w =
      (Inr True, emit (retries url pl k 1 @ [Post url pl]) w)"
    by (rule notify_evaluator_success_at)
next
  assume h: "failed_attempt (post e 0) \<and> failed_attempt (post e 1) \<and> post e 2 = Status 200"
  have "(2::nat) < 5" by simp
  moreover have "post e 2 = Status 200 \<and> (\<forall>j < 2. failed_attempt (post e j))"
    using h by (auto simp: less_Suc_eq numeral_2_eq_2)
  ultimately have "notify_evaluator e url pl w =
      (Inr True, emit (retries url pl 2 1 @ [Post url pl]) w)"
    by (rule notify_evaluator_success_at)
  then show "notify_evaluator e url pl w =
          (Inr True, emit [Post url pl, Sleep 1, Post url pl, Sleep 2, Post url pl] w)"
    by (simp add: numeral_2_eq_2)
qed

theorem notify_evaluator_first_success_witness:
  "failed_attempt (post env_third_200 0) \<and> failed_attempt (post env_third_200 1) \<and>
   post env_third_200 2 = Status 200 \<and>
   fst (notify_evaluator env_third_200 url0 [] w0) = Inr True \<and>
   notify_evaluator env_third_200 url0 [] w0 =
     (Inr True, emit [Post url0 [], Sleep 1, Post url0 [], Sleep 2, Post url0 []] w0)"
  using notify_evaluator_first_success [of env_third_200 url0 "[]" w0]
  by (simp add: env_third_200_def)


section \<open>Properties of wait_for_github_pages_deployment\<close>

lemma wait_loop_watch:
  "n \<le> 30 \<Longrightarrow>
   wait_loop e (10 * n) n w =
     (fst (watch (map (runs e) [n..<30])), emit (snd (watch (map (runs e) [n..<30]))) w)"
proof (induction "30 - n" arbitrary: n w)
  case 0
  then have "n = 30" by simp
  then show ?case by (subst wait_loop.simps) (simp add: timeout_seconds_def)
next
  case (Suc m)
  then have n: "n < 30" by simp
  then have upt: "[n..<30] = n # [Suc n..<30]" by (rule upt_conv_Cons)
  have IH: "wait_loop e (10 * n + 10) (Suc n) w' =
     (fst (watch (map (runs e) [Suc n..<30])), emit (snd (watch (map (runs e) [Suc n..<30]))) w')" for w'
    using Suc.hyps(1) [of "Suc n" w'] Suc.hyps(2) n by (simp add: add.commute)
  have lt: "10 * n < timeout_seconds" using n by (simp add: timeout_seconds_def)
  show ?case
  proof (cases "runs e n")
    case PollError
    then show ?thesis
      using lt by (subst wait_loop.simps) (simp add: upt)
  next
    case NoRuns
    then show ?thesis
      using lt IH by (subst wait_loop.simps) (simp add: upt poll_interval_seconds_def)
  next
    case (Run st c)
    then show ?thesis
      using lt IH by (subst wait_loop.simps) (simp add: upt poll_interval_seconds_def)
  qed
qed

lemma wait_watch:
  "wait_for_github_pages_deployment e w =
     (fst (watch (map (runs e) [0..<30])), emit (Sleep 5 # snd (watch (map (runs e) [0..<30]))) w)"
  using wait_loop_watch [of 0 e "emit [Sleep 5] w"]
  by (simp add: wait_for_github_pages_deployment_def)

lemma events_since_emit [simp]: "events_since w (emit tr w) = tr"
  by (simp add: events_since_def emit_def)

lemma observations_simps [simp]:
  "observations [] = []"
  "observations (Poll ob # tr) = ob # observations tr"
  "observations (Sleep d # tr) = observations tr"
  by (simp_all add: observations_def)

lemma watch_result_iff:
  "fst (watch obs) \<longleftrightarrow>
     (\<exists>ob. find completed (observations (snd (watch obs))) = Some ob \<and>
           conclusion_of ob = Some ''success'')"
proof (induction obs)
  case Nil
  show ?case by simp
next
  case (Cons ob obs)
  show ?case
  proof (cases ob)
    case PollError
    then show ?thesis by simp
  next
    case NoRuns
    then show ?thesis using Cons.IH by simp
  next
    case (Run st c)
    then show ?thesis using Cons.IH by auto
  qed
qed

lemma watch_starts_with_poll:
  "obs \<noteq> [] \<Longrightarrow> \<exists>ob rest. snd (watch obs) = Poll ob # rest"
  by (cases obs) auto

lemma watch_completed_last:
  "snd (watch obs) = pre @ Poll ob # rest \<Longrightarrow> completed ob \<Longrightarrow>
   rest = [] \<and> (fst (watch obs) \<longleftrightarrow> conclusion_of ob = Some ''success'')"
proof (induction obs arbitrary: pre)
  case Nil
  then show ?case by simp
next
  case (Cons x obs)
  show ?case
  proof (cases "pending x")
    case True
    with Cons.prems have eq: "Poll x # Sleep 10 # snd (watch obs) = pre @ Poll ob # rest"
      by simp
    from True Cons.prems(2) have ne: "x \<noteq> ob" by (cases x; cases ob) auto
    from eq ne obtain pre1 where pre1: "pre = Poll x # pre1" "Sleep 10 # snd (watch obs) = pre1 @ Poll ob # rest"
      by (cases pre) auto
    then obtain pre2 where pre2: "pre1 = Sleep 10 # pre2" "snd (watch obs) = pre2 @ Poll ob # rest"
      by (cases pre1) auto
    from Cons.IH [OF pre2(2) Cons.prems(2)] True show ?thesis by simp
  next
    case False
    with Cons.prems have eq: "[Poll x] = pre @ Poll ob # rest" by simp
    then have "pre = []" "rest = []" "x = ob" by (cases pre; simp)+
    with False Cons.prems(2) show ?thesis by (cases ob) auto
  qed
qed

lemma watch_no_runs_continues:
  "snd (watch obs) = pre @ Poll NoRuns # rest \<Longrightarrow>
   \<exists>rest1. rest = Sleep 10 # rest1 \<and>
     (Suc (length (observations pre)) < length obs \<longrightarrow> (\<exists>ob rest2. rest1 = Poll ob # rest2))"
proof (induction obs arbitrary: pre)
  case Nil
  then show ?case by simp
next
  case (Cons x obs)
  show ?case
  proof (cases "pending x")
    case True
    with Cons.prems have eq: "Poll x # Sleep 10 # snd (watch obs) = pre @ Poll NoRuns # rest"
      by simp
    show ?thesis
    proof (cases pre)
      case Nil
      with eq have rest: "rest = Sleep 10 # snd (watch obs)" by simp
      show ?thesis
      proof (intro exI [of _ "snd (watch obs)"] conjI impI)
        show "rest = Sleep 10 # snd (watch obs)" by (rule rest)
        assume "Suc (length (observations pre)) < length (x # obs)"
        with Nil have "obs \<noteq> []" by auto
        then show "\<exists>ob rest2. snd (watch obs) = Poll ob # rest2"
          by (rule watch_starts_with_poll)
      qed
    next
      case (Cons y pre1)
      with eq have y: "y = Poll x" and eq1: "Sleep 10 # snd (watch obs) = pre1 @ Poll NoRuns # rest"
        by simp_all
      then obtain pre2 where pre2: "pre1 = Sleep 10 # pre2" "snd (watch obs) = pre2 @ Poll NoRuns # rest"
        by (cases pre1) auto
      from Cons.IH [OF pre2(2)] Cons y pre2(1) show ?thesis by simp
    qed
  next
    case False
    with Cons.prems have eq: "[Poll x] = pre @ Poll NoRuns # rest" by simp
    then have "x = NoRuns" by (cases pre; simp)
    with False show ?thesis by simp
  qed
qed

lemma watch_shape:
  "\<exists>k \<le> length obs. (\<forall>j < k. pending (obs ! j)) \<and> (k < length obs \<longrightarrow> \<not> pending (obs ! k)) \<and>
     watch obs =
       (k < length obs \<and> obs ! k = Run ''completed'' (Some ''success''),
        concat (map (\<lambda>ob. [Poll ob, Sleep 10]) (take k obs)) @
          (if k < length obs then [Poll (obs ! k)] else []))"
proof (induction obs)
  case Nil
  show ?case by simp
next
  case (Cons x obs)
  show ?case
  proof (cases "pending x")
    case False
    then show ?thesis by (intro exI [of _ 0]) simp
  next
    case True
    from Cons.IH obtain k where k: "k \<le> length obs" "\<forall>j < k. pending (obs ! j)"
      "k < length obs \<longrightarrow> \<not> pending (obs ! k)"
      "watch obs =
       (k < length obs \<and> obs ! k = Run ''completed'' (Some ''success''),
        concat (map (\<lambda>ob. [Poll ob, Sleep 10]) (take k obs)) @
          (if k < length obs then [Poll (obs ! k)] else []))" by blast
    show ?thesis
    proof (intro exI [of _ "Suc k"] conjI allI impI)
      show "Suc k \<le> length (x # obs)" using k(1) by simp
      show "pending ((x # obs) ! j)" if "j < Suc k" for j
        using that True k(2) by (cases j) auto
      show "\<not> pending ((x # obs) ! Suc k)" if "Suc k < length (x # obs)"
        using that k(3) by simp
      show "watch (x # obs) =
       (Suc k < length (x # obs) \<and> (x # obs) ! Suc k = Run ''completed'' (Some ''success''),
        concat (map (\<lambda>ob. [Poll ob, Sleep 10]) (take (Suc k) (x # obs))) @
          (if Suc k < length (x # obs) then [Poll ((x # obs) ! Suc k)] else []))"
        using True k(4) by simp
    qed
  qed
qed

lemma slept_simps [simp]:
  "slept [] = 0"
  "slept (Sleep d # tr) = d + slept tr"
  "slept (Poll ob # tr) = slept tr"
  "slept (tr @ tr') = slept tr + slept tr'"
  by (simp_all add: slept_def)

lemma slept_polls:
  "slept (concat (map (\<lambda>j. [Poll (f j), Sleep 10]) js)) = 10 * length js"
  by (induction js) simp_all

lemma wait_shape:
  "\<exists>k \<le> 30. (\<forall>j < k. pending (runs e j)) \<and> (k < 30 \<longrightarrow> \<not> pending (runs e k)) \<and>
     wait_for_github_pages_deployment e w =
       (k < 30 \<and> runs e k = Run ''completed'' (Some ''success''),
        emit (Sleep 5 # concat (map (\<lambda>j. [Poll (runs e j), Sleep 10]) [0..<k]) @
                (if k < 30 then [Poll (runs e k)] else [])) w)"
proof -
  let ?obs = "map (runs e) [0..<30]"
  from watch_shape [of ?obs]
  obtain k where k: "k \<le> length ?obs" "\<forall>j < k. pending (?obs ! j)"
    "k < length ?obs \<longrightarrow> \<not> pending (?obs ! k)"
    "watch ?obs =
       (k < length ?obs \<and> ?obs ! k = Run ''completed'' (Some ''success''),
        concat (map (\<lambda>ob. [Poll ob, Sleep 10]) (take k ?obs)) @
          (if k < length ?obs then [Poll (?obs ! k)] else []))" by blast
  from k(1) have k30: "k \<le> 30" by simp
  have nth: "?obs ! j = runs e j" if "j < 30" for j using that by simp
  have tk: "take k ?obs = map (runs e) [0..<k]"
    using k30 by (simp add: take_map min_def)
  have p1: "\<forall>j < k. pending (runs e j)"
  proof (intro allI impI)
    fix j assume "j < k"
    with k30 have "j < 30" by simp
    with k(2) \<open>j < k\<close> nth [of j] show "pending (runs e j)" by auto
  qed
  have p2: "k < 30 \<longrightarrow> \<not> pending (runs e k)"
    using k(3) nth [of k] by auto
  have w: "watch ?obs =
       (k < 30 \<and> runs e k = Run ''completed'' (Some ''success''),
        concat (map (\<lambda>j. [Poll (runs e j), Sleep 10]) [0..<k]) @
          (if k < 30 then [Poll (runs e k)] else []))"
  proof (cases "k < 30")
    case True
    with k(4) nth [of k] tk show ?thesis by (simp add: comp_def)
  next
    case False
    with k(4) tk show ?thesis by (simp add: comp_def)
  qed
  show ?thesis
    by (intro exI [of _ k] conjI k30 p1 p2) (simp add: wait_watch w)
qed

lemma wait_all_pending:
  assumes "\<forall>j < 30. pending (runs e j)"
  shows "wait_for_github_pages_deployment e w =
     (False, emit (Sleep 5 # concat (map (\<lambda>j. [Poll (runs e j), Sleep 10]) [0..<30])) w)"
proof -
  from wait_shape [of e w] obtain k where k: "k \<le> 30" "k < 30 \<longrightarrow> \<not> pending (runs e k)"
    "wait_for_github_pages_deployment e w =
       (k < 30 \<and> runs e k = Run ''completed'' (Some ''success''),
        emit (Sleep 5 # concat (map (\<lambda>j. [Poll (runs e j), Sleep 10]) [0..<k]) @
                (if k < 30 then [Poll (runs e k)] else [])) w)" by blast
  from k(2) assms have "\<not> k < 30" by blast
  with k(1) have "k = 30" by simp
  with k(3) show ?thesis by simp
qed

lemma wait_no_completed:
  assumes "\<forall>j < 30. \<not> completed (runs e j)"
  shows "\<not> fst (wait_for_github_pages_deployment e w)"
proof -
  from wait_shape [of e w] obtain k where k: "k \<le> 30"
    "wait_for_github_pages_deployment e w =
       (k < 30 \<and> runs e k = Run ''completed'' (Some ''success''),
        emit (Sleep 5 # concat (map (\<lambda>j. [Poll (runs e j), Sleep 10]) [0..<k]) @
                (if k < 30 then [Poll (runs e k)] else [])) w)" by blast
  show ?thesis
  proof
    assume "fst (wait_for_github_pages_deployment e w)"
    with k(2) have "k < 30" "runs e k = Run ''completed'' (Some ''success'')" by simp_all
    with assms show False by auto
  qed
qed

lemma wait_slept:
  "slept (events_since w (snd (wait_for_github_pages_deployment e w))) \<le> 5 + timeout_seconds"
proof -
  from wait_shape [of e w] obtain k where k: "k \<le> 30"
    "wait_for_github_pages_deployment e w =
       (k < 30 \<and> runs e k = Run ''completed'' (Some ''success''),
        emit (Sleep 5 # concat (map (\<lambda>j. [Poll (runs e j), Sleep 10]) [0..<k]) @
                (if k < 30 then [Poll (runs e k)] else [])) w)" by blast
  show ?thesis using k(1) by (simp add: k(2) slept_polls timeout_seconds_def)
qed


lemma wait_env_polls:
  "wait_for_github_pages_deployment env_polls w0 =
     (False, emit [Sleep 5, Poll NoRuns, Sleep 10, Poll (Run ''in_progress'' None), Sleep 10,
                   Poll (Run ''completed'' (Some ''failure''))] w0)"
  by (simp add: wait_watch env_polls_def upt_rec)

text \<open>
  C4: the watcher returns \<open>True\<close> exactly when the first observation of a completed run
  among the polls it made has the conclusion \<open>"success"\<close>; an observation of a
  completed run is the last effect of the call (no sleep and no poll follows it), and
  with any other conclusion the result is \<open>False\<close>; an observation of no run is followed
  by the poll-interval sleep, and by the next poll unless it was the thirtieth, which
  exhausts the budget.
\<close>

theorem wait_for_github_pages_deployment_first_completed:
  assumes "wait_for_github_pages_deployment e w = (r, w')"
  shows "(r \<longleftrightarrow> (\<exists>ob. find completed (observations (events_since w w')) = Some ob \<and>
                   conclusion_of ob = Some ''success''))
    \<and> (\<forall>pre ob rest. events_since w w' = pre @ Poll ob # rest \<and> completed ob \<longrightarrow>
          rest = [] \<and> (conclusion_of ob \<noteq> Some ''success'' \<longrightarrow> \<not> r))
    \<and> (\<forall>pre rest. events_since w w' = pre @ Poll NoRuns # rest \<longrightarrow>
          (\<exists>rest1. rest = Sleep 10 # rest1 \<and>
             (length (observations pre) < 29 \<longrightarrow> (\<exists>ob rest2. rest1 = Poll ob # rest2))))"
proof -
  let ?obs = "map (runs e) [0..<30]"
  from assms have r: "r = fst (watch ?obs)" and w': "w' = emit (Sleep 5 # snd (watch ?obs)) w"
    by (simp_all add: wait_watch)
  have tr: "events_since w w' = Sleep 5 # snd (watch ?obs)"
    by (simp add: w')
  have split: "\<exists>pre1. pre = Sleep 5 # pre1 \<and> snd (watch ?obs) = pre1 @ Poll ob # rest"
    if "events_since w w' = pre @ Poll ob # rest" for pre ob rest
    using that unfolding tr by (cases pre) auto
  show ?thesis
  proof (intro conjI allI impI)
    show "r \<longleftrightarrow> (\<exists>ob. find completed (observations (events_since w w')) = Some ob \<and>
                   conclusion_of ob = Some ''success'')"
      unfolding tr r using watch_result_iff [of ?obs] by simp
  next
    fix pre ob rest
    assume h: "events_since w w' = pre @ Poll ob # rest \<and> completed ob"
    with split obtain pre1 where "snd (watch ?obs) = pre1 @ Poll ob # rest" by blast
    from watch_completed_last [OF this] h
    have c: "rest = [] \<and> (fst (watch ?obs) \<longleftrightarrow> conclusion_of ob = Some ''success'')"
      by blast
    then show "rest = []" by blast
    assume "conclusion_of ob \<noteq> Some ''success''"
    with c r show "\<not> r" by blast
  next
    fix pre rest
    assume "events_since w w' = pre @ Poll NoRuns # rest"
    with split obtain pre1 where pre1: "pre = Sleep 5 # pre1"
      "snd (watch ?obs) = pre1 @ Poll NoRuns # rest" by blast
    from watch_no_runs_continues [OF pre1(2)] pre1(1)
    show "\<exists>rest1. rest = Sleep 10 # rest1 \<and>
             (length (observations pre) < 29 \<longrightarrow> (\<exists>ob rest2. rest1 = Poll ob # rest2))"
      by simp
  qed
qed

theorem wait_for_github_pages_deployment_first_completed_witness:
  "wait_for_github_pages_deployment env_polls w0 =
     (False, emit [Sleep 5, Poll NoRuns, Sleep 10, Poll (Run ''in_progress'' None), Sleep 10,
                   Poll (Run ''completed'' (Some ''failure''))] w0) \<and>
   find completed (observations
     [Sleep 5, Poll NoRuns, Sleep 10, Poll (Run ''in_progress'' None), Sleep 10,
      Poll (Run ''completed'' (Some ''failure''))]) = Some (Run ''completed'' (Some ''failure'')) \<and>
   completed (Run ''completed'' (Some ''failure'')) \<and>
   conclusion_of (Run ''completed'' (Some ''failure'')) \<noteq> Some ''success'' \<and>
   length (observations [Sleep 5]) < 29"
  using wait_for_github_pages_deployment_first_completed [OF wait_env_polls] wait_env_polls
  by simp

text \<open>
  C5: the watcher first sleeps 5, then polls; every poll that leaves it waiting is
  followed by a sleep of 10, and at most 30 polls are made, so the loop sleeps at most
  the 300 of its budget, the warm-up not included.  It always returns; when none of the
  30 polls shows a completed run the result is \<open>False\<close>, and when all of them leave it
  waiting it returns \<open>False\<close> after 30 polls and 5 + 300 of sleep.
\<close>

theorem wait_for_github_pages_deployment_budget:
  "(\<exists>k \<le> 30. (\<forall>j < k. pending (runs e j)) \<and> (k < 30 \<longrightarrow> \<not> pending (runs e k)) \<and>
      wait_for_github_pages_deployment e w =
        (k < 30 \<and> runs e k = Run ''completed'' (Some ''success''),
         emit (Sleep 5 # concat (map (\<lambda>j. [Poll (runs e j), Sleep 10]) [0..<k]) @
                 (if k < 30 then [Poll (runs e k)] else [])) w))
   \<and> slept (events_since w (snd (wait_for_github_pages_deployment e w))) \<le> 5 + timeout_seconds
   \<and> ((\<forall>j < 30. \<not> completed (runs e j)) \<longrightarrow> \<not> fst (wait_for_github_pages_deployment e w))
   \<and> ((\<forall>j < 30. pending (runs e j)) \<longrightarrow>
        wait_for_github_pages_deployment e w =
          (False, emit (Sleep 5 # concat (map (\<lambda>j. [Poll (runs e j), Sleep 10]) [0..<30])) w) \<and>
        slept (events_since w (snd (wait_for_github_pages_deployment e w))) = 5 + timeout_seconds)"
proof (intro conjI impI)
  show "\<exists>k \<le> 30. (\<forall>j < k. pending (runs e j)) \<and> (k < 30 \<longrightarrow> \<not> pending (runs e k)) \<and>
      wait_for_github_pages_deployment e w =
        (k < 30 \<and> runs e k = Run ''completed'' (Some ''success''),
         emit (Sleep 5 # concat (map (\<lambda>j. [Poll (runs e j), Sleep 10]) [0..<k]) @
                 (if k < 30 then [Poll (runs e k)] else [])) w)"
    by (rule wait_shape)
  show "slept (events_since w (snd (wait_for_github_pages_deployment e w))) \<le> 5 + timeout_seconds"
    by (rule wait_slept)
  show "\<not> fst (wait_for_github_pages_deployment e w)" if "\<forall>j < 30. \<not> completed (runs e j)"
    using that by (rule wait_no_completed)
next
  assume a: "\<forall>j < 30. pending (runs e j)"
  then show eq: "wait_for_github_pages_deployment e w =
          (False, emit (Sleep 5 # concat (map (\<lambda>j. [Poll (runs e j), Sleep 10]) [0..<30])) w)"
    by (rule wait_all_pending)
  show "slept (events_since w (snd (wait_for_github_pages_deployment e w))) = 5 + timeout_seconds"
    by (simp add: eq slept_polls timeout_seconds_def)
qed

theorem wait_for_github_pages_deployment_budget_witness:
  "list_all (\<lambda>j. pending (runs env_never j)) [0..<30] \<and>
   list_all (\<lambda>j. \<not> completed (runs env_never j)) [0..<30] \<and>
   wait_for_github_pages_deployment env_never w0 =
     (False, emit (Sleep 5 # concat (map (\<lambda>j. [Poll (runs env_never j), Sleep 10]) [0..<30])) w0) \<and>
   slept (events_since w0 (snd (wait_for_github_pages_deployment env_never w0))) = 305"
proof -
  have p: "\<forall>j < 30. pending (runs env_never j)"
    by (simp add: env_never_def)
  have c: "\<forall>j < 30. \<not> completed (runs env_never j)"
    by (simp add: env_never_def)
  note t = wait_for_github_pages_deployment_budget [of env_never w0]
  from t p have eq: "wait_for_github_pages_deployment env_never w0 =
     (False, emit (Sleep 5 # concat (map (\<lambda>j. [Poll (runs env_never j), Sleep 10]) [0..<30])) w0)"
    by blast
  from t p have "slept (events_since w0 (snd (wait_for_github_pages_deployment env_never w0))) =
      5 + timeout_seconds"
    by blast
  then have sl: "slept (events_since w0 (snd (wait_for_github_pages_deployment env_never w0))) = 305"
    by (simp add: timeout_seconds_def)
  from p have la1: "list_all (\<lambda>j. pending (runs env_never j)) [0..<30]"
    by (simp add: list_all_iff)
  from c have la2: "list_all (\<lambda>j. \<not> completed (runs env_never j)) [0..<30]"
    by (simp add: list_all_iff)
  show ?thesis
    by (intro conjI la1 la2 eq sl)
qed


section \<open>Properties of the workflows\<close>

lemma posts_emit [simp]: "posts (emit es w) = posts w @ filter is_post es"
  by (simp add: posts_def emit_def)

lemma clock_emit [simp]: "clock (emit es w) = clock w"
  by (simp add: emit_def)

lemma files_emit [simp]: "files (emit es w) = files w"
  by (simp add: emit_def)

lemma trace_emit [simp]: "trace (emit es w) = trace w @ es"
  by (simp add: emit_def)

lemma gh_simps [simp]:
  "fst (gh e c w) = raises e (clock w) c"
  "posts (snd (gh e c w)) = posts w"
  "clock (snd (gh e c w)) = Suc (clock w)"
  "files (snd (gh e c w)) = files w"
  "trace (snd (gh e c w)) = trace w @ [Github c]"
  by (simp_all add: gh_def posts_def)

lemma create_file_simps [simp]:
  "fst (create_file e p c w) = raises e (clock w) (CreateFile p)"
  "posts (snd (create_file e p c w)) = posts w"
  "clock (snd (create_file e p c w)) = Suc (clock w)"
  by (simp_all add: create_file_def gh_def posts_def split: prod.splits bool.splits)

lemma watch_no_posts: "filter is_post (snd (watch obs)) = []"
  by (induction obs) simp_all

lemma wait_result_indep:
  "fst (wait_for_github_pages_deployment e w) = fst (wait_for_github_pages_deployment e wa)"
  by (simp add: wait_watch)

lemma wait_simps [simp]:
  "posts (snd (wait_for_github_pages_deployment e w)) = posts w"
  "clock (snd (wait_for_github_pages_deployment e w)) = clock w"
  "files (snd (wait_for_github_pages_deployment e w)) = files w"
  by (simp_all add: wait_watch watch_no_posts)

lemma wait_fst:
  "fst (wait_for_github_pages_deployment e w) = deployment_succeeds e"
  by (simp add: wait_watch deployment_succeeds_def)

lemma on_raise_fst: "fst (on_raise r h k) = (if fst r then h else fst (k (snd r)))"
  by (simp add: on_raise_def)

lemma on_raise_snd: "snd (on_raise r h k) = (if fst r then snd r else snd (k (snd r)))"
  by (simp add: on_raise_def)


lemma on_raise_posts:
  assumes "posts (snd r) = P" and "\<And>w'. posts w' = P \<Longrightarrow> posts (snd (k w')) = P"
  shows "posts (snd (on_raise r h k)) = P"
  using assms by (simp add: on_raise_def)

lemma on_raise_Some_iff:
  "fst (on_raise r None k) \<noteq> None \<longleftrightarrow> \<not> fst r \<and> fst (k (snd r)) \<noteq> None"
  by (simp add: on_raise_def)

lemma create_and_deploy_repo_posts:
  "posts (snd (create_and_deploy_repo e t code w)) = posts w"
  unfolding create_and_deploy_repo_def Let_def
  by (intro on_raise_posts) (simp_all add: case_prod_unfold on_raise_snd)

lemma create_and_deploy_repo_Some:
  "fst (create_and_deploy_repo e t code w) \<noteq> None \<longleftrightarrow>
     \<not> raises e (clock w) AuthToken \<and> \<not> raises e (clock w + 1) GithubClient \<and>
     \<not> raises e (clock w + 2) GetUser \<and>
     \<not> raises e (clock w + 3) (CreateRepo (''llm-app-'' @ py_str t)) \<and>
     \<not> raises e (clock w + 4) (CreateFile ''LICENSE'') \<and>
     \<not> raises e (clock w + 5) (CreateFile ''README.md'') \<and>
     \<not> raises e (clock w + 6) (CreateFile ''index.html'') \<and>
     \<not> raises e (clock w + 7) EnablePages \<and>
     pages_status e = 201 \<and>
     \<not> raises e (clock w + 8) PagesJson \<and>
     fst (wait_for_github_pages_deployment e wa) \<and>
     \<not> raises e (clock w + 9) (GetBranch ''main'')"
  unfolding create_and_deploy_repo_def Let_def on_raise_Some_iff
  by (simp add: case_prod_unfold wait_fst eval_nat_numeral on_raise_fst)

lemma get_contents_simps [simp]:
  "fst (get_contents e p w) = (if raises e (clock w) (GetContents p) then None else files w p)"
  "posts (snd (get_contents e p w)) = posts w"
  "clock (snd (get_contents e p w)) = Suc (clock w)"
  "files (snd (get_contents e p w)) = files w"
  "trace (snd (get_contents e p w)) = trace w @ [Github (GetContents p)]"
  by (simp_all add: get_contents_def gh_def posts_def split: prod.splits bool.splits)

lemma update_file_simps [simp]:
  "fst (update_file e p c w) =
     (if raises e (clock w) (UpdateFile p) then None else Some (commit_sha_of e (clock w)))"
  "posts (snd (update_file e p c w)) = posts w"
  "clock (snd (update_file e p c w)) = Suc (clock w)"
  "files (snd (update_file e p c w)) =
     (if raises e (clock w) (UpdateFile p) then files w else (files w)(p \<mapsto> c))"
  "trace (snd (update_file e p c w)) = trace w @ [Github (UpdateFile p)]"
  by (simp_all add: update_file_def gh_def posts_def split: prod.splits bool.splits)

lemma get_existing_repo_details_posts:
  "posts (snd (get_existing_repo_details e t w)) = posts w"
  unfolding get_existing_repo_details_def Let_def
  by (intro on_raise_posts) (simp_all add: case_prod_unfold on_raise_snd split: option.splits)

lemma update_loop_posts:
  "posts (snd (update_loop e segs sha w)) = posts w"
  by (induction segs arbitrary: sha w)
     (simp_all add: Let_def case_prod_unfold split: option.splits)

lemma update_repo_files_posts:
  "posts (snd (update_repo_files e resp w)) = posts w"
  by (simp add: update_repo_files_def case_prod_unfold update_loop_posts split: option.splits)

lemma update_repo_files_Some_wait:
  "fst (update_repo_files e resp w) \<noteq> None \<Longrightarrow> fst (wait_for_github_pages_deployment e wa)"
  by (simp add: update_repo_files_def case_prod_unfold wait_fst split: option.splits if_splits)

lemma generate_app_code_posts: "posts (snd (generate_app_code e w)) = posts w"
  by (simp add: generate_app_code_def split: sum.splits)

lemma generate_updated_code_posts: "posts (snd (generate_updated_code e w)) = posts w"
  by (simp add: generate_updated_code_def)

lemma build_generation_raises:
  "generate_app_code e w = (Inl ex, w1) \<Longrightarrow>
   process_build_request e d w = (Inl ex, w1) \<and> posts w1 = posts w"
  using generate_app_code_posts [of e w] by (simp add: process_build_request_def)

lemma build_generation_empty:
  "generate_app_code e w = (Inr [], w1) \<Longrightarrow>
   process_build_request e d w = (Inr (), w1) \<and> posts w1 = posts w"
  using generate_app_code_posts [of e w] by (simp add: process_build_request_def)

lemma build_publish_fails:
  "generate_app_code e w = (Inr code, w1) \<Longrightarrow> code \<noteq> [] \<Longrightarrow>
   create_and_deploy_repo e (py_get d ''task'') code w1 = (None, w2) \<Longrightarrow>
   process_build_request e d w = (Inr (), w2) \<and> posts w2 = posts w"
  using generate_app_code_posts [of e w]
    create_and_deploy_repo_posts [of e "py_get d ''task''" code w1]
  by (simp add: process_build_request_def)

lemma revise_lookup_raises:
  "get_existing_repo_details e (py_get d ''task'') w = (Inl ex, w1) \<Longrightarrow>
   process_revise_request e d w = (Inl ex, w1) \<and> posts w1 = posts w"
  using get_existing_repo_details_posts [of e "py_get d ''task''" w]
  by (simp add: process_revise_request_def)

lemma revise_lookup_fails:
  "get_existing_repo_details e (py_get d ''task'') w = (Inr None, w1) \<Longrightarrow>
   process_revise_request e d w = (Inr (), w1) \<and> posts w1 = posts w"
  using get_existing_repo_details_posts [of e "py_get d ''task''" w]
  by (simp add: process_revise_request_def)

lemma revise_generation_raises:
  "get_existing_repo_details e (py_get d ''task'') w = (Inr (Some rd), w1) \<Longrightarrow>
   generate_updated_code e w1 = (Inl ex, w2) \<Longrightarrow>
   process_revise_request e d w = (Inl ex, w2) \<and> posts w2 = posts w"
  using get_existing_repo_details_posts [of e "py_get d ''task''" w]
    generate_updated_code_posts [of e w1]
  by (simp add: process_revise_request_def)

lemma revise_generation_empty:
  "get_existing_repo_details e (py_get d ''task'') w = (Inr (Some rd), w1) \<Longrightarrow>
   generate_updated_code e w1 = (Inr [], w2) \<Longrightarrow>
   process_revise_request e d w = (Inr (), w2) \<and> posts w2 = posts w"
  using get_existing_repo_details_posts [of e "py_get d ''task''" w]
    generate_updated_code_posts [of e w1]
  by (simp add: process_revise_request_def)

lemma revise_update_fails:
  "get_existing_repo_details e (py_get d ''task'') w = (Inr (Some rd), w1) \<Longrightarrow>
   generate_updated_code e w1 = (Inr resp, w2) \<Longrightarrow> resp \<noteq> [] \<Longrightarrow>
   update_repo_files e resp w2 = (None, w3) \<Longrightarrow>
   process_revise_request e d w = (Inr (), w3) \<and> posts w3 = posts w"
  using get_existing_repo_details_posts [of e "py_get d ''task''" w]
    generate_updated_code_posts [of e w1] update_repo_files_posts [of e resp w2]
  by (simp add: process_revise_request_def)

lemma generate_app_code_env_polls:
  "generate_app_code env_polls w = (Inr ''<html><body>todo</body></html>'', emit [Generate] w)"
  by (simp add: generate_app_code_def env_polls_def env0_def py_strip_def py_isspace_def
      strip_fences_def fence_def fence_html_def)

text \<open>
  C3: in both workflows the notification is attempted only after every earlier stage
  has succeeded.  When generation raises or returns nothing, when publishing (round 1),
  the repository lookup or the file update (round 2) gives its failure value, the run
  ends in the world that the failed stage left, and that world holds no notification
  attempt that the world before the run did not hold.  A deployment wait that fails, a
  Pages request that is not answered with 201 and a GitHub call that raises make
  \<open>create_and_deploy_repo\<close> fail; a deployment wait that fails makes
  \<open>update_repo_files\<close> fail.
\<close>

theorem no_notification_after_failed_stage:
  "(\<forall>ex w1. generate_app_code e w = (Inl ex, w1) \<longrightarrow>
      process_build_request e d w = (Inl ex, w1) \<and> posts w1 = posts w)
   \<and> (\<forall>w1. generate_app_code e w = (Inr [], w1) \<longrightarrow>
      process_build_request e d w = (Inr (), w1) \<and> posts w1 = posts w)
   \<and> (\<forall>code w1 w2. generate_app_code e w = (Inr code, w1) \<and> code \<noteq> [] \<and>
        create_and_deploy_repo e (py_get d ''task'') code w1 = (None, w2) \<longrightarrow>
      process_build_request e d w = (Inr (), w2) \<and> posts w2 = posts w)
   \<and> (\<forall>t code wp wa.
        \<not> fst (wait_for_github_pages_deployment e wa) \<or> pages_status e \<noteq> 201 \<or>
        raises e (clock wp) AuthToken \<or> raises e (clock wp + 1) GithubClient \<or>
        raises e (clock wp + 2) GetUser \<or>
        raises e (clock wp + 3) (CreateRepo (''llm-app-'' @ py_str t)) \<or>
        raises e (clock wp + 4) (CreateFile ''LICENSE'') \<or>
        raises e (clock wp + 5) (CreateFile ''README.md'') \<or>
        raises e (clock wp + 6) (CreateFile ''index.html'') \<or>
        raises e (clock wp + 7) EnablePages \<or>
        raises e (clock wp + 8) PagesJson \<or>
        raises e (clock wp + 9) (GetBranch ''main'') \<longrightarrow>
      fst (create_and_deploy_repo e t code wp) = None)
   \<and> (\<forall>ex w1. get_existing_repo_details e (py_get d ''task'') w = (Inl ex, w1) \<longrightarrow>
      process_revise_request e d w = (Inl ex, w1) \<and> posts w1 = posts w)
   \<and> (\<forall>w1. get_existing_repo_details e (py_get d ''task'') w = (Inr None, w1) \<longrightarrow>
      process_revise_request e d w = (Inr (), w1) \<and> posts w1 = posts w)
   \<and> (\<forall>rd w1 ex w2. get_existing_repo_details e (py_get d ''task'') w = (Inr (Some rd), w1) \<and>
        generate_updated_code e w1 = (Inl ex, w2) \<longrightarrow>
      process_revise_request e d w = (Inl ex, w2) \<and> posts w2 = posts w)
   \<and> (\<forall>rd w1 w2. get_existing_repo_details e (py_get d ''task'') w = (Inr (Some rd), w1) \<and>
        generate_updated_code e w1 = (Inr [], w2) \<longrightarrow>
      process_revise_request e d w = (Inr (), w2) \<and> posts w2 = posts w)
   \<and> (\<forall>rd w1 resp w2 w3.
        get_existing_repo_details e (py_get d ''task'') w = (Inr (Some rd), w1) \<and>
        generate_updated_code e w1 = (Inr resp, w2) \<and> resp \<noteq> [] \<and>
        update_repo_files e resp w2 = (None, w3) \<longrightarrow>
      process_revise_request e d w = (Inr (), w3) \<and> posts w3 = posts w)
   \<and> (\<forall>resp wu wa. \<not> fst (wait_for_github_pages_deployment e wa) \<longrightarrow>
      fst (update_repo_files e resp wu) = None)"
proof (intro conjI allI impI)
  fix t code and wp wa :: world
  assume "\<not> fst (wait_for_github_pages_deployment e wa) \<or> pages_status e \<noteq> 201 \<or>
        raises e (clock wp) AuthToken \<or> raises e (clock wp + 1) GithubClient \<or>
        raises e (clock wp + 2) GetUser \<or>
        raises e (clock wp + 3) (CreateRepo (''llm-app-'' @ py_str t)) \<or>
        raises e (clock wp + 4) (CreateFile ''LICENSE'') \<or>
        raises e (clock wp + 5) (CreateFile ''README.md'') \<or>
        raises e (clock wp + 6) (CreateFile ''index.html'') \<or>
        raises e (clock wp + 7) EnablePages \<or>
        raises e (clock wp + 8) PagesJson \<or>
        raises e (clock wp + 9) (GetBranch ''main'')"
  with create_and_deploy_repo_Some [of e t code wp wa]
  show "fst (create_and_deploy_repo e t code wp) = None" by blast
next
  fix resp and wu wa :: world
  assume "\<not> fst (wait_for_github_pages_deployment e wa)"
  with update_repo_files_Some_wait [of e resp wu wa]
  show "fst (update_repo_files e resp wu) = None" by blast
qed (blast dest: build_generation_raises build_generation_empty build_publish_fails
      revise_lookup_raises revise_lookup_fails revise_generation_raises
      revise_generation_empty revise_update_fails)+

theorem no_notification_after_failed_stage_witness:
  "fst (generate_app_code env_polls w0) = Inr ''<html><body>todo</body></html>'' \<and>
   \<not> fst (wait_for_github_pages_deployment env_polls w0) \<and>
   fst (create_and_deploy_repo env_polls (py_get build_request ''task'')
          ''<html><body>todo</body></html>'' (emit [Generate] w0)) = None \<and>
   fst (process_build_request env_polls build_request w0) = Inr () \<and>
   posts (snd (process_build_request env_polls build_request w0)) = posts w0"
proof -
  note t = no_notification_after_failed_stage [of env_polls w0 build_request]
  note b3 = t [THEN conjunct2, THEN conjunct2, THEN conjunct1, rule_format]
  note b4 = t [THEN conjunct2, THEN conjunct2, THEN conjunct2, THEN conjunct1, rule_format]
  let ?code = "''<html><body>todo</body></html>''"
  let ?w1 = "emit [Generate] w0"
  let ?w2 = "snd (create_and_deploy_repo env_polls (py_get build_request ''task'') ?code ?w1)"
  have g: "generate_app_code env_polls w0 = (Inr ?code, ?w1)"
    by (rule generate_app_code_env_polls)
  have nw: "\<not> fst (wait_for_github_pages_deployment env_polls w0)"
    by (simp add: wait_env_polls)
  have c: "fst (create_and_deploy_repo env_polls (py_get build_request ''task'') ?code ?w1) = None"
    by (rule b4, rule disjI1, rule nw)
  then have p: "create_and_deploy_repo env_polls (py_get build_request ''task'') ?code ?w1 =
      (None, ?w2)"
    by (simp add: prod_eq_iff)
  have ne: "?code \<noteq> []"
    by simp
  have "process_build_request env_polls build_request w0 = (Inr (), ?w2) \<and> posts ?w2 = posts w0"
    by (rule b3 [OF conjI [OF g conjI [OF ne p]]])
  then have r: "fst (process_build_request env_polls build_request w0) = Inr ()"
    and ps: "posts (snd (process_build_request env_polls build_request w0)) = posts w0"
    by simp_all
  from g have g1: "fst (generate_app_code env_polls w0) = Inr ?code"
    by simp
  show ?thesis
    by (intro conjI g1 nw c r ps)
qed


lemma get_existing_repo_details_unbound_iff:
  "fst (get_existing_repo_details e t w) = Inl UnboundLocalError \<longleftrightarrow>
     raises e (clock w) AuthToken \<or> raises e (clock w + 1) GithubClient \<or>
     raises e (clock w + 2) GetUser"
  unfolding get_existing_repo_details_def Let_def
  by (simp add: on_raise_fst case_prod_unfold eval_nat_numeral split: option.splits)

lemma get_existing_repo_details_None_iff:
  assumes "\<not> raises e (clock w) AuthToken" "\<not> raises e (clock w + 1) GithubClient"
    "\<not> raises e (clock w + 2) GetUser"
  shows "fst (get_existing_repo_details e t w) = Inr None \<longleftrightarrow>
     raises e (clock w + 3) (GetRepo (''llm-app-'' @ py_str t)) \<or>
     raises e (clock w + 4) (GetContents ''index.html'') \<or> files w ''index.html'' = None \<or>
     raises e (clock w + 5) (GetContents ''README.md'') \<or> files w ''README.md'' = None \<or>
     raises e (clock w + 6) (Decode ''index.html'') \<or>
     raises e (clock w + 7) (Decode ''README.md'')"
  using assms unfolding get_existing_repo_details_def Let_def
  by (simp add: on_raise_fst case_prod_unfold eval_nat_numeral split: option.splits)

text \<open>
  C10: \<open>get_existing_repo_details\<close> lets an \<open>UnboundLocalError\<close> out exactly when
  creating the token, creating the client or \<open>get_user\<close> raises, that is, when the
  failure comes before \<open>repo_name\<close> is bound; it does not return \<open>None\<close> then, and
  \<open>process_revise_request\<close> passes the exception on.  When these three steps pass, a
  failure of any later step gives the failure value \<open>None\<close>.
\<close>

theorem get_existing_repo_details_unbound_name:
  "(fst (get_existing_repo_details e t w) = Inl UnboundLocalError \<longleftrightarrow>
      raises e (clock w) AuthToken \<or> raises e (clock w + 1) GithubClient \<or>
      raises e (clock w + 2) GetUser)
   \<and> (raises e (clock w) AuthToken \<or> raises e (clock w + 1) GithubClient \<or>
        raises e (clock w + 2) GetUser \<longrightarrow>
        fst (get_existing_repo_details e (py_get d ''task'') w) \<noteq> Inr None \<and>
        fst (process_revise_request e d w) = Inl UnboundLocalError)
   \<and> (\<not> raises e (clock w) AuthToken \<and> \<not> raises e (clock w + 1) GithubClient \<and>
        \<not> raises e (clock w + 2) GetUser \<longrightarrow>
        (fst (get_existing_repo_details e t w) = Inr None \<longleftrightarrow>
           raises e (clock w + 3) (GetRepo (''llm-app-'' @ py_str t)) \<or>
           raises e (clock w + 4) (GetContents ''index.html'') \<or> files w ''index.html'' = None \<or>
           raises e (clock w + 5) (GetContents ''README.md'') \<or> files w ''README.md'' = None \<or>
           raises e (clock w + 6) (Decode ''index.html'') \<or>
           raises e (clock w + 7) (Decode ''README.md'')))"
proof (intro conjI impI)
  show "fst (get_existing_repo_details e t w) = Inl UnboundLocalError \<longleftrightarrow>
      raises e (clock w) AuthToken \<or> raises e (clock w + 1) GithubClient \<or>
      raises e (clock w + 2) GetUser"
    by (rule get_existing_repo_details_unbound_iff)
next
  assume r: "raises e (clock w) AuthToken \<or> raises e (clock w + 1) GithubClient \<or>
        raises e (clock w + 2) GetUser"
  then have u: "fst (get_existing_repo_details e (py_get d ''task'') w) = Inl UnboundLocalError"
    by (simp add: get_existing_repo_details_unbound_iff)
  then show "fst (get_existing_repo_details e (py_get d ''task'') w) \<noteq> Inr None"
    by simp
  from u have "get_existing_repo_details e (py_get d ''task'') w =
      (Inl UnboundLocalError, snd (get_existing_repo_details e (py_get d ''task'') w))"
    by (simp add: prod_eq_iff)
  from revise_lookup_raises [OF this]
  show "fst (process_revise_request e d w) = Inl UnboundLocalError"
    by simp
next
  assume "\<not> raises e (clock w) AuthToken \<and> \<not> raises e (clock w + 1) GithubClient \<and>
        \<not> raises e (clock w + 2) GetUser"
  then show "fst (get_existing_repo_details e t w) = Inr None \<longleftrightarrow>
           raises e (clock w + 3) (GetRepo (''llm-app-'' @ py_str t)) \<or>
           raises e (clock w + 4) (GetContents ''index.html'') \<or> files w ''index.html'' = None \<or>
           raises e (clock w + 5) (GetContents ''README.md'') \<or> files w ''README.md'' = None \<or>
           raises e (clock w + 6) (Decode ''index.html'') \<or>
           raises e (clock w + 7) (Decode ''README.md'')"
    by (intro get_existing_repo_details_None_iff) simp_all
qed

theorem get_existing_repo_details_unbound_name_witness:
  "raises env_no_token (clock w_repo) AuthToken \<and>
   fst (get_existing_repo_details env_no_token (PyStr ''t1'') w_repo) = Inl UnboundLocalError \<and>
   fst (get_existing_repo_details env_no_token (py_get revise_request ''task'') w_repo) \<noteq> Inr None \<and>
   fst (process_revise_request env_no_token revise_request w_repo) = Inl UnboundLocalError \<and>
   \<not> raises env_no_repo (clock w_repo) AuthToken \<and>
   \<not> raises env_no_repo (clock w_repo + 1) GithubClient \<and>
   \<not> raises env_no_repo (clock w_repo + 2) GetUser \<and>
   raises env_no_repo (clock w_repo + 3) (GetRepo (''llm-app-'' @ py_str (PyStr ''t1''))) \<and>
   fst (get_existing_repo_details env_no_repo (PyStr ''t1'') w_repo) = Inr None"
  using get_existing_repo_details_unbound_name [of env_no_token "PyStr ''t1''" w_repo revise_request]
    get_existing_repo_details_unbound_name [of env_no_repo "PyStr ''t1''" w_repo revise_request]
  by (simp add: env_no_token_def env_no_repo_def)


section \<open>Properties of update_repo_files\<close>

lemma py_split1_from_no_newline:
  "CHR 0x0A \<notin> set s \<Longrightarrow> py_split1_from newline cur s = [cur @ s]"
  by (induction s arbitrary: cur) (auto simp: newline_def)

lemma py_split1_from_newline:
  "CHR 0x0A \<in> set s \<Longrightarrow> length (py_split1_from newline cur s) = 2"
  by (induction s arbitrary: cur) (auto simp: newline_def)

lemma py_split1_short_iff:
  "length (py_split1 newline s) < 2 \<longleftrightarrow> CHR 0x0A \<notin> set s"
  using py_split1_from_no_newline [of s "[]"] py_split1_from_newline [of s "[]"]
  by (cases "CHR 0x0A \<in> set s") (simp_all add: py_split1_def)

lemma update_loop_blank:
  "py_strip seg = [] \<Longrightarrow> update_loop e (seg # rest) sha w = update_loop e rest sha w"
  by simp

lemma update_loop_malformed:
  "py_strip seg \<noteq> [] \<Longrightarrow> CHR 0x0A \<notin> set seg \<Longrightarrow>
   update_loop e (seg # rest) sha w = update_loop e rest sha (emit [Warn MalformedBlock] w)"
  by (simp add: py_split1_short_iff)

lemma update_loop_unexpected:
  "py_strip seg \<noteq> [] \<Longrightarrow> CHR 0x0A \<in> set seg \<Longrightarrow>
   block_filename seg \<notin> set [''index.html'', ''README.md''] \<Longrightarrow>
   update_loop e (seg # rest) sha w =
     update_loop e rest sha (emit [Warn (UnexpectedFile (block_filename seg))] w)"
  by (simp add: py_split1_short_iff Let_def)

lemma update_loop_recognized:
  "recognized seg \<Longrightarrow>
   update_loop e (seg # rest) sha w =
     (case get_contents e (block_filename seg) w of
        (None, w1) \<Rightarrow> (None, w1)
      | (Some original_file, w1) \<Rightarrow>
          (case update_file e (block_filename seg) (block_content seg) w1 of
             (None, w2) \<Rightarrow> (None, w2)
           | (Some sha', w2) \<Rightarrow> update_loop e rest sha' w2))"
  by (simp add: recognized_def py_split1_short_iff Let_def)

lemma update_loop_unrecognized:
  "\<not> recognized seg \<Longrightarrow>
   \<exists>warns. list_all is_warn warns \<and> length warns \<le> 1 \<and>
     update_loop e (seg # rest) sha w = update_loop e rest sha (emit warns w)"
proof -
  assume n: "\<not> recognized seg"
  consider (blank) "py_strip seg = []"
    | (malformed) "py_strip seg \<noteq> []" "CHR 0x0A \<notin> set seg"
    | (unexpected) "py_strip seg \<noteq> []" "CHR 0x0A \<in> set seg"
        "block_filename seg \<notin> set [''index.html'', ''README.md'']"
    using n unfolding recognized_def by blast
  then show ?thesis
  proof cases
    case blank
    then have "update_loop e (seg # rest) sha w = update_loop e rest sha (emit [] w)"
      by (simp add: emit_def)
    then show ?thesis by (intro exI [of _ "[]"]) simp
  next
    case malformed
    from update_loop_malformed [OF this] show ?thesis
      by (intro exI [of _ "[Warn MalformedBlock]"]) simp
  next
    case unexpected
    from update_loop_unexpected [OF this] show ?thesis
      by (intro exI [of _ "[Warn (UnexpectedFile (block_filename seg))]"]) simp
  qed
qed

lemma update_loop_none_recognized:
  "\<forall>seg \<in> set segs. \<not> recognized seg \<Longrightarrow>
   \<exists>warns. list_all is_warn warns \<and> update_loop e segs sha w = (Some sha, emit warns w)"
proof (induction segs arbitrary: w)
  case Nil
  show ?case by (intro exI [of _ "[]"]) (simp add: emit_def)
next
  case (Cons seg segs)
  then have "\<not> recognized seg" by simp
  from update_loop_unrecognized [OF this, of e segs sha w]
  obtain w1 where w1: "list_all is_warn w1"
    "update_loop e (seg # segs) sha w = update_loop e segs sha (emit w1 w)" by blast
  from Cons.prems have "\<forall>seg \<in> set segs. \<not> recognized seg" by simp
  from Cons.IH [OF this, of "emit w1 w"]
  obtain w2 where w2: "list_all is_warn w2"
    "update_loop e segs sha (emit w1 w) = (Some sha, emit w2 (emit w1 w))" by blast
  show ?case
    using w1 w2 by (intro exI [of _ "w1 @ w2"]) simp
qed

lemma update_repo_files_no_valid_files:
  assumes "\<forall>seg \<in> set (py_split file_marker resp). \<not> recognized seg"
  shows "\<exists>warns. list_all is_warn warns \<and>
     update_repo_files e resp w = (None, emit (warns @ [Warn NoValidFiles]) w)"
proof -
  from update_loop_none_recognized [OF assms, of e "[]" w]
  obtain warns where "list_all is_warn warns"
    "update_loop e (py_split file_marker resp) [] w = (Some [], emit warns w)" by blast
  then show ?thesis
    by (intro exI [of _ warns]) (simp add: update_repo_files_def)
qed

lemma update_loop_recognized_cases:
  assumes "recognized seg"
  shows "update_loop e (seg # rest) sha w =
     (if raises e (clock w) (GetContents (block_filename seg)) \<or> files w (block_filename seg) = None
      then (None, snd (get_contents e (block_filename seg) w))
      else if raises e (Suc (clock w)) (UpdateFile (block_filename seg))
      then (None, snd (update_file e (block_filename seg) (block_content seg)
                         (snd (get_contents e (block_filename seg) w))))
      else update_loop e rest (commit_sha_of e (Suc (clock w)))
             (snd (update_file e (block_filename seg) (block_content seg)
                    (snd (get_contents e (block_filename seg) w)))))"
  unfolding update_loop_recognized [OF assms]
  by (simp add: case_prod_unfold split: option.splits)

lemma update_loop_drops_unrecognized:
  "files w = files v \<Longrightarrow> clock w = clock v \<Longrightarrow>
   fst (update_loop e segs sha w) = fst (update_loop e (filter recognized segs) sha v) \<and>
   files (snd (update_loop e segs sha w)) =
     files (snd (update_loop e (filter recognized segs) sha v)) \<and>
   clock (snd (update_loop e segs sha w)) =
     clock (snd (update_loop e (filter recognized segs) sha v))"
proof (induction segs arbitrary: sha w v)
  case Nil
  then show ?case by simp
next
  case (Cons seg segs)
  show ?case
  proof (cases "recognized seg")
    case False
    from update_loop_unrecognized [OF False, of e segs sha w]
    obtain warns where "update_loop e (seg # segs) sha w = update_loop e segs sha (emit warns w)"
      by blast
    moreover have "files (emit warns w) = files v" "clock (emit warns w) = clock v"
      using Cons.prems by simp_all
    ultimately show ?thesis
      using Cons.IH [of "emit warns w" v sha] False by simp
  next
    case True
    let ?f = "block_filename seg" and ?c = "block_content seg"
    let ?w2 = "snd (update_file e ?f ?c (snd (get_contents e ?f w)))"
    let ?v2 = "snd (update_file e ?f ?c (snd (get_contents e ?f v)))"
    have "files ?w2 = files ?v2" "clock ?w2 = clock ?v2"
      using Cons.prems by simp_all
    from Cons.IH [OF this, of "commit_sha_of e (Suc (clock w))"] Cons.prems True
    show ?thesis
      by (simp add: update_loop_recognized_cases del: update_loop.simps)
  qed
qed

lemma update_loop_unrecognized_exact:
  "\<not> recognized seg \<Longrightarrow>
   update_loop e (seg # rest) sha w = update_loop e rest sha (emit (block_warning seg) w)"
proof -
  assume n: "\<not> recognized seg"
  consider (blank) "py_strip seg = []"
    | (malformed) "py_strip seg \<noteq> []" "CHR 0x0A \<notin> set seg"
    | (unexpected) "py_strip seg \<noteq> []" "CHR 0x0A \<in> set seg"
        "block_filename seg \<notin> set [''index.html'', ''README.md'']"
    using n unfolding recognized_def by blast
  then show ?thesis
  proof cases
    case blank
    then show ?thesis by (simp add: block_warning_def)
  next
    case malformed
    from update_loop_malformed [OF this] malformed show ?thesis
      by (simp add: block_warning_def)
  next
    case unexpected
    from update_loop_unexpected [OF this] unexpected show ?thesis
      by (simp add: block_warning_def)
  qed
qed

lemma block_events_simps:
  "recognized s \<Longrightarrow>
     block_events s = [Github (GetContents (block_filename s)), Github (UpdateFile (block_filename s))]"
  "\<not> recognized s \<Longrightarrow> block_events s = block_warning s"
  by (simp_all add: block_events_def)

lemma block_events_unrecognized:
  "\<forall>s \<in> set segs. \<not> recognized s \<Longrightarrow>
   concat (map block_events segs) = concat (map block_warning segs)"
  by (induction segs) (simp_all add: block_events_simps)

lemma update_loop_none_recognized_exact:
  "\<forall>s \<in> set segs. \<not> recognized s \<Longrightarrow>
   update_loop e segs sha w = (Some sha, emit (concat (map block_warning segs)) w)"
proof (induction segs arbitrary: w)
  case Nil
  show ?case by simp
next
  case (Cons seg segs)
  then have "\<not> recognized seg" and "\<forall>s \<in> set segs. \<not> recognized s" by simp_all
  with Cons.IH [of "emit (block_warning seg) w"] show ?case
    by (simp add: update_loop_unrecognized_exact del: update_loop.simps)
qed

lemma update_repo_files_no_valid_files_exact:
  assumes "\<forall>s \<in> set (py_split file_marker resp). \<not> recognized s"
  shows "update_repo_files e resp w =
     (None, emit (concat (map block_warning (py_split file_marker resp)) @ [Warn NoValidFiles]) w)"
  by (simp add: update_repo_files_def update_loop_none_recognized_exact [OF assms])

lemma recognized_file_present:
  "recognized s \<Longrightarrow> fs ''index.html'' \<noteq> None \<Longrightarrow> fs ''README.md'' \<noteq> None \<Longrightarrow>
   fs (block_filename s) \<noteq> None"
  by (auto simp: recognized_def)

lemma updated_files_simps [simp]:
  "updated_files [] fs = fs"
  "recognized s \<Longrightarrow>
     updated_files (s # segs) fs = updated_files segs (fs(block_filename s \<mapsto> block_content s))"
  "\<not> recognized s \<Longrightarrow> updated_files (s # segs) fs = updated_files segs fs"
  by (simp_all add: updated_files_def)

lemma update_loop_healthy:
  assumes "\<forall>n c. \<not> raises e n c"
  shows "files w ''index.html'' \<noteq> None \<Longrightarrow> files w ''README.md'' \<noteq> None \<Longrightarrow>
     fst (update_loop e segs sha w) = Some (loop_sha e segs sha (clock w)) \<and>
     files (snd (update_loop e segs sha w)) = updated_files segs (files w) \<and>
     clock (snd (update_loop e segs sha w)) = clock w + 2 * length (filter recognized segs) \<and>
     trace (snd (update_loop e segs sha w)) = trace w @ concat (map block_events segs)"
proof (induction segs arbitrary: sha w)
  case Nil
  show ?case by simp
next
  case (Cons seg segs)
  show ?case
  proof (cases "recognized seg")
    case False
    have "files (emit (block_warning seg) w) ''index.html'' \<noteq> None"
      "files (emit (block_warning seg) w) ''README.md'' \<noteq> None"
      using Cons.prems by simp_all
    from Cons.IH [OF this, of sha] False show ?thesis
      by (simp add: update_loop_unrecognized_exact block_events_simps del: update_loop.simps)
  next
    case True
    let ?f = "block_filename seg" and ?c = "block_content seg"
    let ?w2 = "snd (update_file e ?f ?c (snd (get_contents e ?f w)))"
    let ?sha = "commit_sha_of e (Suc (clock w))"
    have p: "files w ?f \<noteq> None"
      using True Cons.prems by (rule recognized_file_present)
    have fw2: "files ?w2 = (files w)(?f \<mapsto> ?c)"
      and cw2: "clock ?w2 = Suc (Suc (clock w))"
      and tw2: "trace ?w2 = trace w @ [Github (GetContents ?f), Github (UpdateFile ?f)]"
      using assms by simp_all
    have "files ?w2 ''index.html'' \<noteq> None" "files ?w2 ''README.md'' \<noteq> None"
      using Cons.prems by (simp_all add: fw2)
    from Cons.IH [OF this, of ?sha]
    have ih: "fst (update_loop e segs ?sha ?w2) = Some (loop_sha e segs ?sha (Suc (Suc (clock w)))) \<and>
      files (snd (update_loop e segs ?sha ?w2)) = updated_files segs ((files w)(?f \<mapsto> ?c)) \<and>
      clock (snd (update_loop e segs ?sha ?w2)) =
        Suc (Suc (clock w)) + 2 * length (filter recognized segs) \<and>
      trace (snd (update_loop e segs ?sha ?w2)) =
        (trace w @ [Github (GetContents ?f), Github (UpdateFile ?f)]) @
        concat (map block_events segs)"
      unfolding fw2 cw2 tw2 .
    have step: "update_loop e (seg # segs) sha w = update_loop e segs ?sha ?w2"
      using True p assms by (auto simp add: update_loop_recognized_cases simp del: update_loop.simps)
    show ?thesis
      unfolding step using ih True by (simp add: block_events_simps)
  qed
qed

lemma loop_sha_cases:
  "loop_sha e segs sha k = sha \<and> (\<forall>s \<in> set segs. \<not> recognized s) \<or>
   (\<exists>n. loop_sha e segs sha k = commit_sha_of e n)"
  by (induction segs arbitrary: sha k) auto

lemma loop_sha_nonempty:
  assumes "\<exists>s \<in> set segs. recognized s" and "\<forall>n. commit_sha_of e n \<noteq> []"
  shows "loop_sha e segs sha k \<noteq> []"
  using loop_sha_cases [of e segs sha k] assms by auto

lemma wait_events:
  "events_since w (snd (wait_for_github_pages_deployment e w)) =
   events_since wa (snd (wait_for_github_pages_deployment e wa))"
  by (simp add: wait_watch)

lemma update_repo_files_healthy:
  assumes h: "\<forall>n c. \<not> raises e n c"
    and f: "files w ''index.html'' \<noteq> None" "files w ''README.md'' \<noteq> None"
    and r: "\<exists>s \<in> set (py_split file_marker resp). recognized s"
    and c: "\<forall>n. commit_sha_of e n \<noteq> []"
    and d: "fst (wait_for_github_pages_deployment e wa)"
  shows "fst (update_repo_files e resp w) =
       Some (loop_sha e (py_split file_marker resp) [] (clock w)) \<and>
     files (snd (update_repo_files e resp w)) =
       updated_files (py_split file_marker resp) (files w) \<and>
     events_since w (snd (update_repo_files e resp w)) =
       concat (map block_events (py_split file_marker resp)) @
       events_since wa (snd (wait_for_github_pages_deployment e wa))"
proof -
  let ?segs = "py_split file_marker resp"
  let ?l = "update_loop e ?segs [] w"
  note l = update_loop_healthy [OF h f, of ?segs "[]"]
  have ne: "loop_sha e ?segs [] (clock w) \<noteq> []"
    using r c by (rule loop_sha_nonempty)
  obtain w1 where w1: "?l = (Some (loop_sha e ?segs [] (clock w)), w1)"
    using l by (cases ?l) simp
  with l have fw: "files w1 = updated_files ?segs (files w)"
    and tw: "trace w1 = trace w @ concat (map block_events ?segs)"
    by simp_all
  have dw: "fst (wait_for_github_pages_deployment e w1)"
    using d by (simp add: wait_fst)
  have u: "update_repo_files e resp w =
      (Some (loop_sha e ?segs [] (clock w)), snd (wait_for_github_pages_deployment e w1))"
    using ne dw by (simp add: update_repo_files_def w1 case_prod_unfold)
  have "trace (snd (wait_for_github_pages_deployment e w1)) =
      trace w1 @ events_since wa (snd (wait_for_github_pages_deployment e wa))"
    by (simp add: wait_watch)
  then have "events_since w (snd (wait_for_github_pages_deployment e w1)) =
      concat (map block_events ?segs) @
      events_since wa (snd (wait_for_github_pages_deployment e wa))"
    by (simp add: events_since_def tw)
  then show ?thesis
    by (simp add: u fw)
qed

lemma revise_update_succeeds:
  assumes "get_existing_repo_details e (py_get d ''task'') w = (Inr (Some rd), w1)"
    and "generate_updated_code e w1 = (Inr resp, w2)" and "resp \<noteq> []"
    and "fst (update_repo_files e resp w2) = Some sha" and "sha \<noteq> []"
  shows "process_revise_request e d w =
     (case notify_evaluator e (py_get d ''evaluation_url'')
             [(''email'', py_get d ''email''), (''task'', py_get d ''task''),
              (''round'', PyInt 2), (''nonce'', py_get d ''nonce''),
              (''repo_url'', PyStr (repo_html_url e)), (''commit_sha'', PyStr sha),
              (''pages_url'',
                 PyStr (''https://'' @ login e @ ''.github.io/'' @ repo_name_of rd @ ''/''))]
             (snd (update_repo_files e resp w2)) of
        (Inl ex, w4) \<Rightarrow> (Inl ex, w4)
      | (Inr delivered, w4) \<Rightarrow> (Inr (), w4))"
proof -
  obtain w3 where w3: "update_repo_files e resp w2 = (Some sha, w3)"
    using assms(4) by (cases "update_repo_files e resp w2") simp
  show ?thesis
    using assms(1,2,3,5) by (simp add: process_revise_request_def w3)
qed

lemma on_raise_files:
  assumes "files (snd r) = F" and "\<And>w'. files w' = F \<Longrightarrow> files (snd (k w')) = F"
  shows "files (snd (on_raise r h k)) = F"
  using assms by (simp add: on_raise_def)

lemma get_existing_repo_details_files:
  "files (snd (get_existing_repo_details e t w)) = files w"
  unfolding get_existing_repo_details_def Let_def
  by (intro on_raise_files) (simp_all add: case_prod_unfold on_raise_snd split: option.splits)

lemma block_warning_is_warn: "list_all is_warn (concat (map block_warning segs))"
  by (induction segs) (simp_all add: block_warning_def)

text \<open>
  C6: in \<open>update_repo_files\<close> a block without a line break and a block whose name is
  neither \<open>index.html\<close> nor \<open>README.md\<close> only add their warning to the trace; the loop
  goes on with the remaining blocks and the same commit id, and its result and the files
  of the repository are those of the loop over the recognized blocks alone.  For a
  response that holds such blocks beside recognized ones, and a host on which no call
  raises, \<open>update_repo_files\<close> reads and updates every recognized file in the order of
  the response, emits the warning of every other block at its place, waits for the
  deployment and returns the id of the last commit, and \<open>process_revise_request\<close> goes
  on to the notification with that commit id.  When no block is recognized,
  \<open>update_repo_files\<close> emits the warnings of the blocks, makes no GitHub call and no
  deployment wait, signals that no valid file was updated and returns \<open>None\<close>;
  \<open>process_revise_request\<close> then returns without a notification attempt.
\<close>

theorem update_repo_files_unrecognized_blocks:
  "(py_strip seg \<noteq> [] \<and> CHR 0x0A \<notin> set seg \<longrightarrow>
      update_loop e (seg # rest) sha w = update_loop e rest sha (emit [Warn MalformedBlock] w))
   \<and> (py_strip seg \<noteq> [] \<and> CHR 0x0A \<in> set seg \<and>
        block_filename seg \<notin> set [''index.html'', ''README.md''] \<longrightarrow>
      update_loop e (seg # rest) sha w =
        update_loop e rest sha (emit [Warn (UnexpectedFile (block_filename seg))] w))
   \<and> fst (update_loop e segs sha w) = fst (update_loop e (filter recognized segs) sha w)
   \<and> files (snd (update_loop e segs sha w)) =
        files (snd (update_loop e (filter recognized segs) sha w))
   \<and> list_all is_warn (concat (map block_warning (py_split file_marker resp)))
   \<and> ((\<forall>n c. \<not> raises e n c) \<and>
       files w ''index.html'' \<noteq> None \<and> files w ''README.md'' \<noteq> None \<and>
       (\<exists>s \<in> set (py_split file_marker resp). recognized s) \<and>
       (\<forall>n. commit_sha_of e n \<noteq> []) \<and>
       fst (wait_for_github_pages_deployment e wa) \<longrightarrow>
         fst (update_repo_files e resp w) =
           Some (loop_sha e (py_split file_marker resp) [] (clock w)) \<and>
         files (snd (update_repo_files e resp w)) =
           updated_files (py_split file_marker resp) (files w) \<and>
         events_since w (snd (update_repo_files e resp w)) =
           concat (map block_events (py_split file_marker resp)) @
           events_since wa (snd (wait_for_github_pages_deployment e wa)))
   \<and> (\<forall>rd w1 w2.
        get_existing_repo_details e (py_get d ''task'') w = (Inr (Some rd), w1) \<and>
        generate_updated_code e w1 = (Inr resp, w2) \<and> resp \<noteq> [] \<and>
        (\<forall>n c. \<not> raises e n c) \<and>
        files w2 ''index.html'' \<noteq> None \<and> files w2 ''README.md'' \<noteq> None \<and>
        (\<exists>s \<in> set (py_split file_marker resp). recognized s) \<and>
        (\<forall>n. commit_sha_of e n \<noteq> []) \<and>
        fst (wait_for_github_pages_deployment e wa) \<longrightarrow>
        process_revise_request e d w =
          (case notify_evaluator e (py_get d ''evaluation_url'')
                  [(''email'', py_get d ''email''), (''task'', py_get d ''task''),
                   (''round'', PyInt 2), (''nonce'', py_get d ''nonce''),
                   (''repo_url'', PyStr (repo_html_url e)),
                   (''commit_sha'',
                      PyStr (loop_sha e (py_split file_marker resp) [] (clock w2))),
                   (''pages_url'',
                      PyStr (''https://'' @ login e @ ''.github.io/'' @ repo_name_of rd @ ''/''))]
                  (snd (update_repo_files e resp w2)) of
             (Inl ex, w4) \<Rightarrow> (Inl ex, w4)
           | (Inr delivered, w4) \<Rightarrow> (Inr (), w4)))
   \<and> ((\<forall>s \<in> set (py_split file_marker resp). \<not> recognized s) \<longrightarrow>
        update_repo_files e resp w =
          (None, emit (concat (map block_warning (py_split file_marker resp)) @
                       [Warn NoValidFiles]) w))
   \<and> (\<forall>rd w1 w2.
        get_existing_repo_details e (py_get d ''task'') w = (Inr (Some rd), w1) \<and>
        generate_updated_code e w1 = (Inr resp, w2) \<and> resp \<noteq> [] \<and>
        (\<forall>s \<in> set (py_split file_marker resp). \<not> recognized s) \<longrightarrow>
        process_revise_request e d w =
          (Inr (), emit (concat (map block_warning (py_split file_marker resp)) @
                         [Warn NoValidFiles]) w2) \<and>
        posts (emit (concat (map block_warning (py_split file_marker resp)) @
                     [Warn NoValidFiles]) w2) = posts w)"
proof (intro conjI allI impI)
  assume "py_strip seg \<noteq> [] \<and> CHR 0x0A \<notin> set seg"
  then show "update_loop e (seg # rest) sha w =
      update_loop e rest sha (emit [Warn MalformedBlock] w)"
    by (intro update_loop_malformed) simp_all
next
  assume "py_strip seg \<noteq> [] \<and> CHR 0x0A \<in> set seg \<and>
        block_filename seg \<notin> set [''index.html'', ''README.md'']"
  then show "update_loop e (seg # rest) sha w =
        update_loop e rest sha (emit [Warn (UnexpectedFile (block_filename seg))] w)"
    by (intro update_loop_unexpected) simp_all
next
  show "fst (update_loop e segs sha w) = fst (update_loop e (filter recognized segs) sha w)"
    using update_loop_drops_unrecognized [of w w e segs sha] by simp
  show "files (snd (update_loop e segs sha w)) =
        files (snd (update_loop e (filter recognized segs) sha w))"
    using update_loop_drops_unrecognized [of w w e segs sha] by simp
  show "list_all is_warn (concat (map block_warning (py_split file_marker resp)))"
    by (rule block_warning_is_warn)
next
  assume h: "(\<forall>n c. \<not> raises e n c) \<and>
       files w ''index.html'' \<noteq> None \<and> files w ''README.md'' \<noteq> None \<and>
       (\<exists>s \<in> set (py_split file_marker resp). recognized s) \<and>
       (\<forall>n. commit_sha_of e n \<noteq> []) \<and>
       fst (wait_for_github_pages_deployment e wa)"
  then have "fst (update_repo_files e resp w) =
       Some (loop_sha e (py_split file_marker resp) [] (clock w)) \<and>
     files (snd (update_repo_files e resp w)) =
       updated_files (py_split file_marker resp) (files w) \<and>
     events_since w (snd (update_repo_files e resp w)) =
       concat (map block_events (py_split file_marker resp)) @
       events_since wa (snd (wait_for_github_pages_deployment e wa))"
    by (intro update_repo_files_healthy) blast+
  then show "fst (update_repo_files e resp w) =
           Some (loop_sha e (py_split file_marker resp) [] (clock w))"
    and "files (snd (update_repo_files e resp w)) =
           updated_files (py_split file_marker resp) (files w)"
    and "events_since w (snd (update_repo_files e resp w)) =
           concat (map block_events (py_split file_marker resp)) @
           events_since wa (snd (wait_for_github_pages_deployment e wa))"
    by blast+
next
  fix rd w1 w2
  assume h: "get_existing_repo_details e (py_get d ''task'') w = (Inr (Some rd), w1) \<and>
        generate_updated_code e w1 = (Inr resp, w2) \<and> resp \<noteq> [] \<and>
        (\<forall>n c. \<not> raises e n c) \<and>
        files w2 ''index.html'' \<noteq> None \<and> files w2 ''README.md'' \<noteq> None \<and>
        (\<exists>s \<in> set (py_split file_marker resp). recognized s) \<and>
        (\<forall>n. commit_sha_of e n \<noteq> []) \<and>
        fst (wait_for_github_pages_deployment e wa)"
  then have l: "get_existing_repo_details e (py_get d ''task'') w = (Inr (Some rd), w1)"
    and g: "generate_updated_code e w1 = (Inr resp, w2)" and ne: "resp \<noteq> []"
    and r: "\<exists>s \<in> set (py_split file_marker resp). recognized s"
    and c: "\<forall>n. commit_sha_of e n \<noteq> []"
    by blast+
  from h have "fst (update_repo_files e resp w2) =
       Some (loop_sha e (py_split file_marker resp) [] (clock w2)) \<and>
     files (snd (update_repo_files e resp w2)) =
       updated_files (py_split file_marker resp) (files w2) \<and>
     events_since w2 (snd (update_repo_files e resp w2)) =
       concat (map block_events (py_split file_marker resp)) @
       events_since wa (snd (wait_for_github_pages_deployment e wa))"
    by (intro update_repo_files_healthy) blast+
  then have u: "fst (update_repo_files e resp w2) =
       Some (loop_sha e (py_split file_marker resp) [] (clock w2))"
    by blast
  have s: "loop_sha e (py_split file_marker resp) [] (clock w2) \<noteq> []"
    using r c by (rule loop_sha_nonempty)
  show "process_revise_request e d w =
          (case notify_evaluator e (py_get d ''evaluation_url'')
                  [(''email'', py_get d ''email''), (''task'', py_get d ''task''),
                   (''round'', PyInt 2), (''nonce'', py_get d ''nonce''),
                   (''repo_url'', PyStr (repo_html_url e)),
                   (''commit_sha'',
                      PyStr (loop_sha e (py_split file_marker resp) [] (clock w2))),
                   (''pages_url'',
                      PyStr (''https://'' @ login e @ ''.github.io/'' @ repo_name_of rd @ ''/''))]
                  (snd (update_repo_files e resp w2)) of
             (Inl ex, w4) \<Rightarrow> (Inl ex, w4)
           | (Inr delivered, w4) \<Rightarrow> (Inr (), w4))"
    by (rule revise_update_succeeds [OF l g ne u s])
next
  assume "\<forall>s \<in> set (py_split file_marker resp). \<not> recognized s"
  then show "update_repo_files e resp w =
          (None, emit (concat (map block_warning (py_split file_marker resp)) @
                       [Warn NoValidFiles]) w)"
    by (rule update_repo_files_no_valid_files_exact)
next
  fix rd w1 w2
  assume h: "get_existing_repo_details e (py_get d ''task'') w = (Inr (Some rd), w1) \<and>
        generate_updated_code e w1 = (Inr resp, w2) \<and> resp \<noteq> [] \<and>
        (\<forall>s \<in> set (py_split file_marker resp). \<not> recognized s)"
  then have l: "get_existing_repo_details e (py_get d ''task'') w = (Inr (Some rd), w1)"
    and g: "generate_updated_code e w1 = (Inr resp, w2)" and ne: "resp \<noteq> []"
    and n: "\<forall>s \<in> set (py_split file_marker resp). \<not> recognized s"
    by blast+
  note u = update_repo_files_no_valid_files_exact [OF n, of e w2]
  from revise_update_fails [OF l g ne u]
  show "process_revise_request e d w =
          (Inr (), emit (concat (map block_warning (py_split file_marker resp)) @
                         [Warn NoValidFiles]) w2)"
    and "posts (emit (concat (map block_warning (py_split file_marker resp)) @
                     [Warn NoValidFiles]) w2) = posts w"
    by blast+
qed

lemma resp_bad_unrecognized:
  "list_all (\<lambda>s. \<not> recognized s) (py_split file_marker resp_bad)"
  by (simp add: py_split_def file_marker_def resp_bad_def newline_def recognized_def
      block_filename_def py_split1_def py_strip_def py_isspace_def)

lemma resp_bad_warnings:
  "concat (map block_warning (py_split file_marker resp_bad)) =
     [Warn (UnexpectedFile ''Here you go''), Warn (UnexpectedFile ''style.css''),
      Warn MalformedBlock]"
  by (simp add: py_split_def file_marker_def resp_bad_def newline_def block_warning_def
      block_filename_def py_split1_def py_strip_def py_isspace_def)

lemma lookup_env_bad_response:
  "get_existing_repo_details env_bad_response (py_get revise_request ''task'') w_repo =
     (Inr (Some \<lparr>repo_name_of = ''llm-app-t1'',
                  existing_code = [''index.html'' \<mapsto> ''<html>v1</html>'', ''README.md'' \<mapsto> ''# v1'']\<rparr>),
      snd (get_existing_repo_details env_bad_response (py_get revise_request ''task'') w_repo))"
  by (simp add: get_existing_repo_details_def on_raise_def gh_def get_contents_def Let_def
      env_bad_response_def env0_def revise_request_def py_get_def w_repo_def prod_eq_iff)

lemma lookup_env_mixed_response:
  "get_existing_repo_details env_mixed_response (py_get revise_request ''task'') w_repo =
     (Inr (Some \<lparr>repo_name_of = ''llm-app-t1'',
                  existing_code = [''index.html'' \<mapsto> ''<html>v1</html>'', ''README.md'' \<mapsto> ''# v1'']\<rparr>),
      snd (get_existing_repo_details env_mixed_response (py_get revise_request ''task'') w_repo))"
  by (simp add: get_existing_repo_details_def on_raise_def gh_def get_contents_def Let_def
      env_mixed_response_def env0_def revise_request_def py_get_def w_repo_def prod_eq_iff)

lemma resp_mixed_blocks:
  "concat (map block_events (py_split file_marker resp_mixed)) =
     [Warn (UnexpectedFile ''style.css''),
      Github (GetContents ''index.html''), Github (UpdateFile ''index.html''),
      Github (GetContents ''README.md''), Github (UpdateFile ''README.md''),
      Warn MalformedBlock]"
  "loop_sha env_mixed_response (py_split file_marker resp_mixed) [] k = ''d4e5f6''"
  "updated_files (py_split file_marker resp_mixed) fs =
     fs(''index.html'' \<mapsto> ''<html>v2</html>'', ''README.md'' \<mapsto> ''# v2'')"
  "\<exists>s \<in> set (py_split file_marker resp_mixed). recognized s"
  by (simp_all add: py_split_def file_marker_def resp_mixed_def newline_def recognized_def
      block_filename_def block_content_def py_split1_def py_strip_def py_isspace_def
      block_events_def block_warning_def strip_fences_def fence_def fence_html_def
      updated_files_def env_mixed_response_def env0_def)

lemma wait_env_mixed_response:
  "wait_for_github_pages_deployment env_mixed_response w =
     (True, emit [Sleep 5, Poll (Run ''completed'' (Some ''success''))] w)"
  by (simp add: wait_watch env_mixed_response_def env0_def upt_rec)

lemma notify_env_mixed_response:
  "notify_evaluator env_mixed_response url pl w = (Inr True, emit [Post url pl] w)"
  using notify_evaluator_success_at [of 0 env_mixed_response url pl w]
  by (simp add: env_mixed_response_def env0_def)

theorem update_repo_files_unrecognized_blocks_witness:
  "py_strip ''notes'' \<noteq> [] \<and> CHR 0x0A \<notin> set ''notes'' \<and>
   update_loop env_mixed_response [''notes''] [] w_repo =
     (Some [], emit [Warn MalformedBlock] w_repo) \<and>
   (\<forall>n c. \<not> raises env_mixed_response n c) \<and>
   files w_repo ''index.html'' \<noteq> None \<and> files w_repo ''README.md'' \<noteq> None \<and>
   (\<exists>s \<in> set (py_split file_marker resp_mixed). recognized s) \<and>
   (\<forall>n. commit_sha_of env_mixed_response n \<noteq> []) \<and>
   fst (wait_for_github_pages_deployment env_mixed_response w0) \<and>
   fst (update_repo_files env_mixed_response resp_mixed w_repo) = Some ''d4e5f6'' \<and>
   files (snd (update_repo_files env_mixed_response resp_mixed w_repo)) =
     [''index.html'' \<mapsto> ''<html>v2</html>'', ''README.md'' \<mapsto> ''# v2''] \<and>
   events_since w_repo (snd (update_repo_files env_mixed_response resp_mixed w_repo)) =
     [Warn (UnexpectedFile ''style.css''),
      Github (GetContents ''index.html''), Github (UpdateFile ''index.html''),
      Github (GetContents ''README.md''), Github (UpdateFile ''README.md''),
      Warn MalformedBlock, Sleep 5, Poll (Run ''completed'' (Some ''success''))] \<and>
   fst (process_revise_request env_mixed_response revise_request w_repo) = Inr () \<and>
   posts (snd (process_revise_request env_mixed_response revise_request w_repo)) =
     [Post url0 revise_payload] \<and>
   list_all (\<lambda>s. \<not> recognized s) (py_split file_marker resp_bad) \<and>
   resp_bad \<noteq> [] \<and>
   update_repo_files env_bad_response resp_bad w_repo =
     (None, emit [Warn (UnexpectedFile ''Here you go''), Warn (UnexpectedFile ''style.css''),
                  Warn MalformedBlock, Warn NoValidFiles] w_repo) \<and>
   fst (process_revise_request env_bad_response revise_request w_repo) = Inr () \<and>
   posts (snd (process_revise_request env_bad_response revise_request w_repo)) = posts w_repo"
proof -
  note t = update_repo_files_unrecognized_blocks
  note tm = t [of "''notes''" env_mixed_response "[]" "[]" w_repo "[]" resp_mixed w0 revise_request]
  note tb = t [of "''notes''" env_bad_response "[]" "[]" w_repo "[]" resp_bad w0 revise_request]
  \<comment> \<open>a block without a line break\<close>
  have s: "py_strip ''notes'' \<noteq> []"
    by (simp add: py_strip_def py_isspace_def)
  have n: "CHR 0x0A \<notin> set ''notes''"
    by simp
  from tm s n have m: "update_loop env_mixed_response [''notes''] [] w_repo =
     (Some [], emit [Warn MalformedBlock] w_repo)"
    by simp
  \<comment> \<open>a response with other blocks beside the two files\<close>
  have h: "\<forall>n c. \<not> raises env_mixed_response n c"
    by (simp add: env_mixed_response_def env0_def)
  have f1: "files w_repo ''index.html'' \<noteq> None" and f2: "files w_repo ''README.md'' \<noteq> None"
    by (simp_all add: w_repo_def)
  have r: "\<exists>s \<in> set (py_split file_marker resp_mixed). recognized s"
    by (rule resp_mixed_blocks)
  have c: "\<forall>n. commit_sha_of env_mixed_response n \<noteq> []"
    by (simp add: env_mixed_response_def env0_def)
  have d: "fst (wait_for_github_pages_deployment env_mixed_response w0)"
    by (simp add: wait_env_mixed_response)
  note u = tm [THEN conjunct2, THEN conjunct2, THEN conjunct2, THEN conjunct2, THEN conjunct2,
      THEN conjunct1, rule_format,
      OF conjI [OF h conjI [OF f1 conjI [OF f2 conjI [OF r conjI [OF c d]]]]]]
  from u have u1: "fst (update_repo_files env_mixed_response resp_mixed w_repo) = Some ''d4e5f6''"
    by (simp add: resp_mixed_blocks)
  from u have u2: "files (snd (update_repo_files env_mixed_response resp_mixed w_repo)) =
     [''index.html'' \<mapsto> ''<html>v2</html>'', ''README.md'' \<mapsto> ''# v2'']"
    by (simp add: resp_mixed_blocks w_repo_def)
  from u have u3: "events_since w_repo (snd (update_repo_files env_mixed_response resp_mixed w_repo)) =
     [Warn (UnexpectedFile ''style.css''),
      Github (GetContents ''index.html''), Github (UpdateFile ''index.html''),
      Github (GetContents ''README.md''), Github (UpdateFile ''README.md''),
      Warn MalformedBlock, Sleep 5, Poll (Run ''completed'' (Some ''success''))]"
    by (simp add: resp_mixed_blocks wait_env_mixed_response)
  \<comment> \<open>the workflow on that response\<close>
  let ?w1 = "snd (get_existing_repo_details env_mixed_response (py_get revise_request ''task'') w_repo)"
  let ?w2 = "emit [Generate] ?w1"
  let ?w3 = "snd (update_repo_files env_mixed_response resp_mixed ?w2)"
  have g: "generate_updated_code env_mixed_response ?w1 = (Inr resp_mixed, ?w2)"
    by (simp add: generate_updated_code_def env_mixed_response_def)
  have ne: "resp_mixed \<noteq> []"
    by (simp add: resp_mixed_def)
  have g1: "files ?w2 ''index.html'' \<noteq> None" and g2: "files ?w2 ''README.md'' \<noteq> None"
    by (simp_all add: get_existing_repo_details_files w_repo_def)
  note p = tm [THEN conjunct2, THEN conjunct2, THEN conjunct2, THEN conjunct2, THEN conjunct2,
      THEN conjunct2, THEN conjunct1, rule_format,
      OF conjI [OF lookup_env_mixed_response conjI [OF g conjI [OF ne conjI [OF h
         conjI [OF g1 conjI [OF g2 conjI [OF r conjI [OF c d]]]]]]]]]
  have pw3: "posts ?w3 = posts w_repo"
    by (simp add: update_repo_files_posts get_existing_repo_details_posts)
  from p have p1: "fst (process_revise_request env_mixed_response revise_request w_repo) = Inr ()"
    by (simp add: notify_env_mixed_response)
  from p have "posts (snd (process_revise_request env_mixed_response revise_request w_repo)) =
      posts ?w3 @ [Post (py_get revise_request ''evaluation_url'')
        [(''email'', py_get revise_request ''email''), (''task'', py_get revise_request ''task''),
         (''round'', PyInt 2), (''nonce'', py_get revise_request ''nonce''),
         (''repo_url'', PyStr (repo_html_url env_mixed_response)),
         (''commit_sha'', PyStr ''d4e5f6''),
         (''pages_url'', PyStr (''https://'' @ login env_mixed_response @ ''.github.io/'' @
            ''llm-app-t1'' @ ''/''))]]"
    by (simp add: notify_env_mixed_response resp_mixed_blocks)
  then have p2: "posts (snd (process_revise_request env_mixed_response revise_request w_repo)) =
     [Post url0 revise_payload]"
    by (simp add: pw3)
       (simp add: posts_def w_repo_def revise_request_def py_get_def revise_payload_def
          env_mixed_response_def env0_def)
  \<comment> \<open>a response without a recognized block\<close>
  have la: "list_all (\<lambda>s. \<not> recognized s) (py_split file_marker resp_bad)"
    by (rule resp_bad_unrecognized)
  then have nr: "\<forall>s \<in> set (py_split file_marker resp_bad). \<not> recognized s"
    by (simp add: list_all_iff)
  have nb: "resp_bad \<noteq> []"
    by (simp add: resp_bad_def)
  note b = tb [THEN conjunct2, THEN conjunct2, THEN conjunct2, THEN conjunct2, THEN conjunct2,
      THEN conjunct2, THEN conjunct2, THEN conjunct1, THEN mp, OF nr]
  from b have b1: "update_repo_files env_bad_response resp_bad w_repo =
     (None, emit [Warn (UnexpectedFile ''Here you go''), Warn (UnexpectedFile ''style.css''),
                  Warn MalformedBlock, Warn NoValidFiles] w_repo)"
    by (simp add: resp_bad_warnings)
  let ?v1 = "snd (get_existing_repo_details env_bad_response (py_get revise_request ''task'') w_repo)"
  have gb: "generate_updated_code env_bad_response ?v1 = (Inr resp_bad, emit [Generate] ?v1)"
    by (simp add: generate_updated_code_def env_bad_response_def)
  note q = tb [THEN conjunct2, THEN conjunct2, THEN conjunct2, THEN conjunct2, THEN conjunct2,
      THEN conjunct2, THEN conjunct2, THEN conjunct2, rule_format,
      OF conjI [OF lookup_env_bad_response conjI [OF gb conjI [OF nb nr]]]]
  from q have q1: "fst (process_revise_request env_bad_response revise_request w_repo) = Inr ()"
    by simp
  from q have q2: "posts (snd (process_revise_request env_bad_response revise_request w_repo)) =
     posts w_repo"
    by simp
  show ?thesis
    by (intro conjI s n m h f1 f2 r c d u1 u2 u3 p1 p2 la nb b1 q1 q2)
qed


lemma update_loop_partial:
  assumes "first_committed_second_fails e w seg1 seg2"
  shows "fst (update_loop e (seg1 # seg2 # rest) sha w) = None \<and>
     files (snd (update_loop e (seg1 # seg2 # rest) sha w)) =
       (files w)(block_filename seg1 \<mapsto> block_content seg1) \<and>
     take 3 (events_since w (snd (update_loop e (seg1 # seg2 # rest) sha w))) =
       [Github (GetContents (block_filename seg1)), Github (UpdateFile (block_filename seg1)),
        Github (GetContents (block_filename seg2))]"
  using assms unfolding first_committed_second_fails_def
  by (auto simp add: update_loop_recognized_cases events_since_def eval_nat_numeral
      simp del: update_loop.simps)

lemma update_repo_files_partial:
  assumes "py_split file_marker resp = pre # seg1 # seg2 # rest" and "py_strip pre = []"
    and "first_committed_second_fails e w seg1 seg2"
  shows "fst (update_repo_files e resp w) = None \<and>
     files (snd (update_repo_files e resp w)) =
       (files w)(block_filename seg1 \<mapsto> block_content seg1)"
proof -
  let ?r = "update_loop e (seg1 # seg2 # rest) [] w"
  have "update_loop e (py_split file_marker resp) [] w = ?r"
    using assms(1,2) by simp
  moreover from update_loop_partial [OF assms(3), of rest "[]"]
  have "fst ?r = None" "files (snd ?r) = (files w)(block_filename seg1 \<mapsto> block_content seg1)"
    by (simp_all del: update_loop.simps)
  ultimately show ?thesis
    by (simp add: update_repo_files_def case_prod_unfold del: update_loop.simps)
qed

text \<open>
  C9: the loop of \<open>update_repo_files\<close> handles the recognized blocks one after the
  other, in the order of the response.  When the first block's file has been read and
  updated and the read or the update of the second block's file then raises, the loop
  ends with the failure value: the calls made are the read and the update of the first
  file and the read of the second, the first file keeps its new content, and nothing
  else in the repository has changed.  \<open>update_repo_files\<close> returns \<open>None\<close> in that
  state and \<open>process_revise_request\<close> returns without a notification attempt.
\<close>

theorem update_repo_files_not_atomic:
  "(first_committed_second_fails e w seg1 seg2 \<longrightarrow>
      fst (update_loop e (seg1 # seg2 # rest) sha w) = None \<and>
      files (snd (update_loop e (seg1 # seg2 # rest) sha w)) =
        (files w)(block_filename seg1 \<mapsto> block_content seg1) \<and>
      take 3 (events_since w (snd (update_loop e (seg1 # seg2 # rest) sha w))) =
        [Github (GetContents (block_filename seg1)), Github (UpdateFile (block_filename seg1)),
         Github (GetContents (block_filename seg2))])
   \<and> (py_split file_marker resp = pre # seg1 # seg2 # rest \<and> py_strip pre = [] \<and>
       first_committed_second_fails e w seg1 seg2 \<longrightarrow>
      fst (update_repo_files e resp w) = None \<and>
      files (snd (update_repo_files e resp w)) =
        (files w)(block_filename seg1 \<mapsto> block_content seg1))
   \<and> (\<forall>rd w1 w2.
       get_existing_repo_details e (py_get d ''task'') w = (Inr (Some rd), w1) \<and>
       generate_updated_code e w1 = (Inr resp, w2) \<and> resp \<noteq> [] \<and>
       py_split file_marker resp = pre # seg1 # seg2 # rest \<and> py_strip pre = [] \<and>
       first_committed_second_fails e w2 seg1 seg2 \<longrightarrow>
      fst (process_revise_request e d w) = Inr () \<and>
      posts (snd (process_revise_request e d w)) = posts w \<and>
      files (snd (process_revise_request e d w)) =
        (files w)(block_filename seg1 \<mapsto> block_content seg1))"
proof (intro conjI allI impI)
  assume "first_committed_second_fails e w seg1 seg2"
  from update_loop_partial [OF this, of rest sha]
  show "fst (update_loop e (seg1 # seg2 # rest) sha w) = None"
    and "files (snd (update_loop e (seg1 # seg2 # rest) sha w)) =
        (files w)(block_filename seg1 \<mapsto> block_content seg1)"
    and "take 3 (events_since w (snd (update_loop e (seg1 # seg2 # rest) sha w))) =
        [Github (GetContents (block_filename seg1)), Github (UpdateFile (block_filename seg1)),
         Github (GetContents (block_filename seg2))]"
    by blast+
next
  assume h: "py_split file_marker resp = pre # seg1 # seg2 # rest \<and> py_strip pre = [] \<and>
       first_committed_second_fails e w seg1 seg2"
  then have "fst (update_repo_files e resp w) = None \<and>
     files (snd (update_repo_files e resp w)) =
       (files w)(block_filename seg1 \<mapsto> block_content seg1)"
    by (intro update_repo_files_partial [of resp pre seg1 seg2 rest]) blast+
  then show "fst (update_repo_files e resp w) = None"
    and "files (snd (update_repo_files e resp w)) =
        (files w)(block_filename seg1 \<mapsto> block_content seg1)"
    by blast+
next
  fix rd w1 w2
  assume h: "get_existing_repo_details e (py_get d ''task'') w = (Inr (Some rd), w1) \<and>
       generate_updated_code e w1 = (Inr resp, w2) \<and> resp \<noteq> [] \<and>
       py_split file_marker resp = pre # seg1 # seg2 # rest \<and> py_strip pre = [] \<and>
       first_committed_second_fails e w2 seg1 seg2"
  then have l: "get_existing_repo_details e (py_get d ''task'') w = (Inr (Some rd), w1)"
    and g: "generate_updated_code e w1 = (Inr resp, w2)" and ne: "resp \<noteq> []"
    and sp: "py_split file_marker resp = pre # seg1 # seg2 # rest" and bl: "py_strip pre = []"
    and f: "first_committed_second_fails e w2 seg1 seg2"
    by blast+
  from update_repo_files_partial [OF sp bl f]
  have u: "update_repo_files e resp w2 = (None, snd (update_repo_files e resp w2))"
    and fu: "files (snd (update_repo_files e resp w2)) =
       (files w2)(block_filename seg1 \<mapsto> block_content seg1)"
    by (simp_all add: prod_eq_iff)
  from revise_update_fails [OF l g ne u]
  have r: "process_revise_request e d w = (Inr (), snd (update_repo_files e resp w2))"
    and p: "posts (snd (update_repo_files e resp w2)) = posts w"
    by blast+
  have "files w1 = files w"
    using get_existing_repo_details_files [of e "py_get d ''task''" w] l by simp
  moreover have "files w2 = files w1"
    using g by (auto simp: generate_updated_code_def)
  ultimately have fw: "files w2 = files w" by simp
  show "fst (process_revise_request e d w) = Inr ()"
    by (simp add: r)
  show "posts (snd (process_revise_request e d w)) = posts w"
    by (simp add: r p)
  show "files (snd (process_revise_request e d w)) =
        (files w)(block_filename seg1 \<mapsto> block_content seg1)"
    by (simp add: r fu fw)
qed

lemma split_resp_two:
  "py_split file_marker resp_two = [] # seg_index # seg_readme # []"
  by (simp add: py_split_def file_marker_def resp_two_def seg_index_def seg_readme_def
      newline_def)

lemma resp_two_blocks:
  "recognized seg_index" "recognized seg_readme"
  "block_filename seg_index = ''index.html''" "block_filename seg_readme = ''README.md''"
  "block_content seg_index = ''<html>v2</html>''"
  by (simp_all add: recognized_def block_filename_def block_content_def py_split1_def
      py_split_def seg_index_def seg_readme_def newline_def py_strip_def py_isspace_def
      strip_fences_def fence_def fence_html_def)

lemma lookup_env_second_fails:
  "get_existing_repo_details env_second_fails (py_get revise_request ''task'') w_repo =
     (Inr (Some \<lparr>repo_name_of = ''llm-app-t1'',
                  existing_code = [''index.html'' \<mapsto> ''<html>v1</html>'', ''README.md'' \<mapsto> ''# v1'']\<rparr>),
      snd (get_existing_repo_details env_second_fails (py_get revise_request ''task'') w_repo))"
  by (simp add: get_existing_repo_details_def on_raise_def gh_def get_contents_def Let_def
      env_second_fails_def env0_def revise_request_def py_get_def w_repo_def prod_eq_iff)

lemma partial_env_second_fails:
  "files w = files w_repo \<Longrightarrow> first_committed_second_fails env_second_fails w seg_index seg_readme"
  by (simp add: first_committed_second_fails_def resp_two_blocks env_second_fails_def w_repo_def)

theorem update_repo_files_not_atomic_witness:
  "py_split file_marker resp_two = [] # seg_index # seg_readme # [] \<and> py_strip [] = [] \<and>
   resp_two \<noteq> [] \<and>
   first_committed_second_fails env_second_fails w_repo seg_index seg_readme \<and>
   fst (update_repo_files env_second_fails resp_two w_repo) = None \<and>
   files (snd (update_repo_files env_second_fails resp_two w_repo)) ''index.html'' =
     Some ''<html>v2</html>'' \<and>
   files (snd (update_repo_files env_second_fails resp_two w_repo)) ''README.md'' = Some ''# v1'' \<and>
   fst (process_revise_request env_second_fails revise_request w_repo) = Inr () \<and>
   posts (snd (process_revise_request env_second_fails revise_request w_repo)) = posts w_repo \<and>
   files (snd (process_revise_request env_second_fails revise_request w_repo)) ''index.html'' =
     Some ''<html>v2</html>''"
proof -
  note t = update_repo_files_not_atomic [of env_second_fails w_repo seg_index seg_readme "[]" "[]"
      resp_two "[]" revise_request]
  let ?w1 = "snd (get_existing_repo_details env_second_fails (py_get revise_request ''task'') w_repo)"
  have sp: "py_split file_marker resp_two = [] # seg_index # seg_readme # []"
    by (rule split_resp_two)
  have bl: "py_strip [] = []"
    by (simp add: py_strip_def)
  have ne: "resp_two \<noteq> []"
    by (simp add: resp_two_def)
  have f: "first_committed_second_fails env_second_fails w_repo seg_index seg_readme"
    by (rule partial_env_second_fails) simp
  note u = t [THEN conjunct2, THEN conjunct1, rule_format, OF conjI [OF sp conjI [OF bl f]]]
  have g: "generate_updated_code env_second_fails ?w1 = (Inr resp_two, emit [Generate] ?w1)"
    by (simp add: generate_updated_code_def env_second_fails_def)
  have f2: "first_committed_second_fails env_second_fails (emit [Generate] ?w1) seg_index seg_readme"
    by (rule partial_env_second_fails) (simp add: get_existing_repo_details_files)
  note p = t [THEN conjunct2, THEN conjunct2, rule_format,
      OF conjI [OF lookup_env_second_fails conjI [OF g conjI [OF ne conjI [OF sp conjI [OF bl f2]]]]]]
  from u have u1: "fst (update_repo_files env_second_fails resp_two w_repo) = None"
    by blast
  from u have u2: "files (snd (update_repo_files env_second_fails resp_two w_repo)) ''index.html'' =
     Some ''<html>v2</html>''"
    by (simp add: resp_two_blocks)
  from u have u3: "files (snd (update_repo_files env_second_fails resp_two w_repo)) ''README.md'' =
     Some ''# v1''"
    by (simp add: resp_two_blocks w_repo_def)
  from p have p1: "fst (process_revise_request env_second_fails revise_request w_repo) = Inr ()"
    by blast
  from p have p2: "posts (snd (process_revise_request env_second_fails revise_request w_repo)) =
     posts w_repo"
    by blast
  from p have p3: "files (snd (process_revise_request env_second_fails revise_request w_repo))
     ''index.html'' = Some ''<html>v2</html>''"
    by (simp add: resp_two_blocks)
  show ?thesis
    by (intro conjI sp bl ne f u1 u2 u3 p1 p2 p3)
qed


section \<open>Properties of the HTTP handler\<close>

lemma accepted_not_forbidden [simp]: "accepted \<noteq> forbidden"
  by (simp add: accepted_def forbidden_def)

lemma handle_rejected_iff:
  "fst (handle_project_request e rq w) = Inr forbidden \<longleftrightarrow>
     \<not> (\<exists>data. rq = Some data \<and> data \<noteq> [] \<and> py_eq (py_get data ''secret'') (my_app_secret e))"
  by (cases rq) (auto simp: handle_project_request_def split: prod.splits sum.splits)

lemma handle_revise:
  assumes "data \<noteq> []" "py_eq (py_get data ''secret'') (my_app_secret e)"
    "py_eq (py_get data ''round'') (PyInt 2)"
  shows "handle_project_request e (Some data) w =
     (case process_revise_request e data w of
        (Inl ex, w1) \<Rightarrow> (Inl ex, w1)
      | (Inr u, w1) \<Rightarrow> (Inr accepted, emit [Respond 200] w1))"
  using assms by (simp add: handle_project_request_def)

lemma handle_build:
  assumes "data \<noteq> []" "py_eq (py_get data ''secret'') (my_app_secret e)"
    "\<not> py_eq (py_get data ''round'') (PyInt 2)" "py_eq (py_get data ''round'') (PyInt 1)"
  shows "handle_project_request e (Some data) w =
     (case process_build_request e data w of
        (Inl ex, w1) \<Rightarrow> (Inl ex, w1)
      | (Inr u, w1) \<Rightarrow> (Inr accepted, emit [Respond 200] w1))"
  using assms by (simp add: handle_project_request_def)

lemma handle_no_workflow:
  assumes "data \<noteq> []" "py_eq (py_get data ''secret'') (my_app_secret e)"
    "\<not> py_eq (py_get data ''round'') (PyInt 2)" "\<not> py_eq (py_get data ''round'') (PyInt 1)"
  shows "handle_project_request e (Some data) w = (Inr accepted, emit [Respond 200] w)"
  using assms by (simp add: handle_project_request_def)

lemma build_env0:
  "process_build_request env0 build_request w0 =
     (Inr (), emit build_events w0\<lparr>clock := 10,
        files := [''LICENSE'' \<mapsto> license_content,
                  ''README.md'' \<mapsto> readme_content ''llm-app-t1'',
                  ''index.html'' \<mapsto> ''<html><body>todo</body></html>'']\<rparr>)"
  by (simp add: process_build_request_def generate_app_code_def create_and_deploy_repo_def
      on_raise_def gh_def create_file_def wait_watch notify_evaluator_def max_retries_def
      upt_rec env0_def build_request_def py_get_def w0_def emit_def Let_def
      py_strip_def py_isspace_def strip_fences_def fence_def fence_html_def
      build_events_def build_payload_def url0_def)

lemma build_env_no_secret:
  "process_build_request env_no_secret build_request_no_secret w0 =
     (Inr (), emit build_events w0\<lparr>clock := 10,
        files := [''LICENSE'' \<mapsto> license_content,
                  ''README.md'' \<mapsto> readme_content ''llm-app-t1'',
                  ''index.html'' \<mapsto> ''<html><body>todo</body></html>'']\<rparr>)"
  by (simp add: process_build_request_def generate_app_code_def create_and_deploy_repo_def
      on_raise_def gh_def create_file_def wait_watch notify_evaluator_def max_retries_def
      upt_rec env_no_secret_def env0_def build_request_no_secret_def py_get_def w0_def
      emit_def Let_def py_strip_def py_isspace_def strip_fences_def fence_def fence_html_def
      build_events_def build_payload_def url0_def)

lemma build_env_polls_returns:
  "fst (process_build_request env_polls build_request w0) = Inr ()"
proof -
  let ?code = "''<html><body>todo</body></html>''"
  let ?c = "create_and_deploy_repo env_polls (py_get build_request ''task'') ?code (emit [Generate] w0)"
  have "\<not> fst (wait_for_github_pages_deployment env_polls w0)"
    by (simp add: wait_env_polls)
  with create_and_deploy_repo_Some [of env_polls _ ?code "emit [Generate] w0" w0]
  have "fst ?c = None" by blast
  then have "?c = (None, snd ?c)" by (simp add: prod_eq_iff)
  from build_publish_fails [OF generate_app_code_env_polls _ this]
  show ?thesis by simp
qed

text \<open>
  C2, as the code has it: for a request that passes authentication the handler calls
  the selected workflow and returns only after the call; when the workflow returns,
  whatever its outcome, the handler returns the same accepted response with status 200,
  in the world that the workflow left, and hands out the response as its last effect.
\<close>

theorem handle_project_request_after_workflow:
  assumes "data \<noteq> []" and "py_eq (py_get data ''secret'') (my_app_secret e)"
  shows "(py_eq (py_get data ''round'') (PyInt 2) \<and>
          fst (process_revise_request e data w) = Inr () \<longrightarrow>
            handle_project_request e (Some data) w =
              (Inr accepted, emit [Respond 200] (snd (process_revise_request e data w))))
     \<and> (\<not> py_eq (py_get data ''round'') (PyInt 2) \<and> py_eq (py_get data ''round'') (PyInt 1) \<and>
          fst (process_build_request e data w) = Inr () \<longrightarrow>
            handle_project_request e (Some data) w =
              (Inr accepted, emit [Respond 200] (snd (process_build_request e data w))))
     \<and> (\<not> py_eq (py_get data ''round'') (PyInt 2) \<and> \<not> py_eq (py_get data ''round'') (PyInt 1) \<longrightarrow>
            handle_project_request e (Some data) w = (Inr accepted, emit [Respond 200] w))"
proof (intro conjI impI)
  assume h: "py_eq (py_get data ''round'') (PyInt 2) \<and>
          fst (process_revise_request e data w) = Inr ()"
  then show "handle_project_request e (Some data) w =
      (Inr accepted, emit [Respond 200] (snd (process_revise_request e data w)))"
    using handle_revise [OF assms, of w] by (simp add: case_prod_unfold)
next
  assume h: "\<not> py_eq (py_get data ''round'') (PyInt 2) \<and> py_eq (py_get data ''round'') (PyInt 1) \<and>
          fst (process_build_request e data w) = Inr ()"
  then show "handle_project_request e (Some data) w =
      (Inr accepted, emit [Respond 200] (snd (process_build_request e data w)))"
    using handle_build [OF assms, of w] by (simp add: case_prod_unfold)
next
  assume "\<not> py_eq (py_get data ''round'') (PyInt 2) \<and> \<not> py_eq (py_get data ''round'') (PyInt 1)"
  then show "handle_project_request e (Some data) w = (Inr accepted, emit [Respond 200] w)"
    using handle_no_workflow [OF assms, of w] by simp
qed

theorem handle_project_request_after_workflow_witness:
  "build_request \<noteq> [] \<and> py_eq (py_get build_request ''secret'') (my_app_secret env_polls) \<and>
   \<not> py_eq (py_get build_request ''round'') (PyInt 2) \<and>
   py_eq (py_get build_request ''round'') (PyInt 1) \<and>
   fst (process_build_request env_polls build_request w0) = Inr () \<and>
   handle_project_request env_polls (Some build_request) w0 =
     (Inr accepted, emit [Respond 200] (snd (process_build_request env_polls build_request w0)))"
proof -
  have ne: "build_request \<noteq> []"
    by (simp add: build_request_def)
  have s: "py_eq (py_get build_request ''secret'') (my_app_secret env_polls)"
    by (simp add: build_request_def py_get_def my_app_secret_def env_polls_def env0_def)
  have r2: "\<not> py_eq (py_get build_request ''round'') (PyInt 2)"
    by (simp add: build_request_def py_get_def)
  have r1: "py_eq (py_get build_request ''round'') (PyInt 1)"
    by (simp add: build_request_def py_get_def)
  note b = build_env_polls_returns
  from handle_project_request_after_workflow [OF ne s, of w0] r2 r1 b
  have "handle_project_request env_polls (Some build_request) w0 =
     (Inr accepted, emit [Respond 200] (snd (process_build_request env_polls build_request w0)))"
    by blast
  with ne s r2 r1 b show ?thesis by blast
qed

text \<open>
  C2, as the spec states it, fails: for an authenticated round-1 request whose workflow
  runs through, everything the workflow does, up to the notification, comes before the
  response.
\<close>

theorem handle_project_request_immediate_counterexample:
  "fst (handle_project_request env0 (Some build_request) w0) = Inr accepted \<and>
   trace (snd (handle_project_request env0 (Some build_request) w0)) =
     build_events @ [Respond 200] \<and>
   events_before_response (trace (snd (handle_project_request env0 (Some build_request) w0))) =
     [Generate, Github AuthToken, Github GithubClient, Github GetUser,
      Github (CreateRepo ''llm-app-t1''), Github (CreateFile ''LICENSE''),
      Github (CreateFile ''README.md''), Github (CreateFile ''index.html''),
      Github EnablePages, Github PagesJson, Sleep 5,
      Poll (Run ''completed'' (Some ''success'')),
      Github (GetBranch ''main''), Post url0 build_payload]"
  by (simp add: handle_project_request_def build_env0 my_app_secret_def)
     (simp add: build_request_def py_get_def env0_def emit_def w0_def build_events_def
      events_before_response_def)

text \<open>
  C8, as the code has it: the handler rejects a request exactly when the body is
  \<open>null\<close> or an empty dictionary or its secret field differs from the configured
  secret.  With no secret configured, a non-empty request without a secret field is
  accepted, and the handler calls the workflow that the round selects.
\<close>

theorem handle_project_request_authentication:
  "(fst (handle_project_request e rq w) = Inr forbidden \<longleftrightarrow>
      \<not> (\<exists>data. rq = Some data \<and> data \<noteq> [] \<and>
             py_eq (py_get data ''secret'') (my_app_secret e)))
   \<and> (app_secret e = None \<and> data \<noteq> [] \<and> map_of data ''secret'' = None \<longrightarrow>
        fst (handle_project_request e (Some data) w) \<noteq> Inr forbidden \<and>
        (py_eq (py_get data ''round'') (PyInt 2) \<longrightarrow>
           handle_project_request e (Some data) w =
             (case process_revise_request e data w of
                (Inl ex, w1) \<Rightarrow> (Inl ex, w1)
              | (Inr u, w1) \<Rightarrow> (Inr accepted, emit [Respond 200] w1))) \<and>
        (\<not> py_eq (py_get data ''round'') (PyInt 2) \<and> py_eq (py_get data ''round'') (PyInt 1) \<longrightarrow>
           handle_project_request e (Some data) w =
             (case process_build_request e data w of
                (Inl ex, w1) \<Rightarrow> (Inl ex, w1)
              | (Inr u, w1) \<Rightarrow> (Inr accepted, emit [Respond 200] w1))))"
proof (intro conjI impI)
  show "fst (handle_project_request e rq w) = Inr forbidden \<longleftrightarrow>
      \<not> (\<exists>data. rq = Some data \<and> data \<noteq> [] \<and>
             py_eq (py_get data ''secret'') (my_app_secret e))"
    by (rule handle_rejected_iff)
next
  assume h: "app_secret e = None \<and> data \<noteq> [] \<and> map_of data ''secret'' = None"
  then have ne: "data \<noteq> []" and s: "py_eq (py_get data ''secret'') (my_app_secret e)"
    by (simp_all add: py_get_def my_app_secret_def)
  then show "fst (handle_project_request e (Some data) w) \<noteq> Inr forbidden"
    by (simp add: handle_rejected_iff)
  show "handle_project_request e (Some data) w =
             (case process_revise_request e data w of
                (Inl ex, w1) \<Rightarrow> (Inl ex, w1)
              | (Inr u, w1) \<Rightarrow> (Inr accepted, emit [Respond 200] w1))"
    if "py_eq (py_get data ''round'') (PyInt 2)"
    using that by (intro handle_revise ne s)
  show "handle_project_request e (Some data) w =
             (case process_build_request e data w of
                (Inl ex, w1) \<Rightarrow> (Inl ex, w1)
              | (Inr u, w1) \<Rightarrow> (Inr accepted, emit [Respond 200] w1))"
    if "\<not> py_eq (py_get data ''round'') (PyInt 2) \<and> py_eq (py_get data ''round'') (PyInt 1)"
    using that by (intro handle_build ne s) simp_all
qed

theorem handle_project_request_authentication_witness:
  "app_secret env_no_secret = None \<and> build_request_no_secret \<noteq> [] \<and>
   map_of build_request_no_secret ''secret'' = None \<and>
   \<not> py_eq (py_get build_request_no_secret ''round'') (PyInt 2) \<and>
   py_eq (py_get build_request_no_secret ''round'') (PyInt 1) \<and>
   fst (handle_project_request env_no_secret (Some build_request_no_secret) w0) \<noteq> Inr forbidden \<and>
   fst (handle_project_request env_no_secret (Some build_request_no_secret) w0) = Inr accepted \<and>
   trace (snd (handle_project_request env_no_secret (Some build_request_no_secret) w0)) =
     build_events @ [Respond 200]"
proof -
  have a: "app_secret env_no_secret = None"
    by (simp add: env_no_secret_def)
  have ne: "build_request_no_secret \<noteq> []"
    by (simp add: build_request_no_secret_def)
  have m: "map_of build_request_no_secret ''secret'' = None"
    by (simp add: build_request_no_secret_def)
  have r2: "\<not> py_eq (py_get build_request_no_secret ''round'') (PyInt 2)"
    by (simp add: build_request_no_secret_def py_get_def)
  have r1: "py_eq (py_get build_request_no_secret ''round'') (PyInt 1)"
    by (simp add: build_request_no_secret_def py_get_def)
  note t = handle_project_request_authentication
    [of env_no_secret "Some build_request_no_secret" w0 build_request_no_secret,
     THEN conjunct2, rule_format, OF conjI [OF a conjI [OF ne m]]]
  from t have nf: "fst (handle_project_request env_no_secret (Some build_request_no_secret) w0) \<noteq>
      Inr forbidden"
    by blast
  from t r2 r1 have h: "handle_project_request env_no_secret (Some build_request_no_secret) w0 =
      (case process_build_request env_no_secret build_request_no_secret w0 of
         (Inl ex, w1) \<Rightarrow> (Inl ex, w1)
       | (Inr u, w1) \<Rightarrow> (Inr accepted, emit [Respond 200] w1))"
    by blast
  have ac: "fst (handle_project_request env_no_secret (Some build_request_no_secret) w0) =
      Inr accepted"
    by (simp add: h build_env_no_secret)
  have tr: "trace (snd (handle_project_request env_no_secret (Some build_request_no_secret) w0)) =
      build_events @ [Respond 200]"
    by (simp add: h build_env_no_secret) (simp add: w0_def)
  show ?thesis
    by (intro conjI a ne m r2 r1 nf ac tr)
qed

text \<open>
  C8, as stated, fails: with no secret configured, the empty dictionary has no secret
  field, which compares equal to the configured value, and yet the request is rejected.
\<close>

theorem handle_project_request_empty_body_counterexample:
  "py_eq (py_get [] ''secret'') (my_app_secret env_no_secret) \<and>
   handle_project_request env_no_secret (Some []) w0 = (Inr forbidden, emit [Respond 403] w0)"
  by (simp add: handle_project_request_def py_get_def my_app_secret_def env_no_secret_def)

end
